theory Spec2Isabelle
  imports Complex_Main
begin

section \<open>Python values, exceptions and dictionaries\<close>

text \<open>
  The filing handed to both detectors is a JSON object held in a Python dict. Its values are
  modelled by \<open>pyval\<close>: JSON null, a number or a string. Numbers (Python \<open>int\<close> and
  \<open>float\<close>) are finite real numbers; a decimal such as 0.7 stands for the double nearest
  to it. Arithmetic is exact, except in the two places where the code compares the result
  of float arithmetic with a threshold that rounding can cross: the margin
  \<open>typical_ratio + 0.1\<close> of the deduction check and the weighted sum of the ensemble. Both
  are computed in double precision (see below). Infinities and NaN as inputs (JSON
  \<open>1e400\<close> parses to \<open>inf\<close>) and integers beyond the range of a double (whose conversion
  raises \<open>OverflowError\<close>) are not modelled. A JSON boolean behaves as the number 1 or 0
  in every operation used below; nested arrays and objects as values are not modelled.
  The history is a list of such dicts; an absent history (\<open>None\<close>) and an empty one take
  the same branches everywhere and are both the empty list. A raised exception is the left
  summand of a result.
\<close>

datatype pyval = PNone | PNum real | PStr string

datatype pyerror = TypeError | AttributeError | ValueError | IndexError | KeyError | ZeroDivisionError

type_synonym filing = "(string \<times> pyval) list"

definition dict_get :: "(string \<times> 'v) list \<Rightarrow> string \<Rightarrow> 'v \<Rightarrow> 'v" where
  \<comment> \<open>\<open>d.get(k, default)\<close>\<close>
  "dict_get d k dflt = (case map_of d k of None \<Rightarrow> dflt | Some v \<Rightarrow> v)"

definition bind_err :: "pyerror + 'a \<Rightarrow> ('a \<Rightarrow> pyerror + 'b) \<Rightarrow> pyerror + 'b" where
  \<comment> \<open>sequencing of two statements: an exception in the first skips the second\<close>
  "bind_err r k = (case r of Inl e \<Rightarrow> Inl e | Inr v \<Rightarrow> k v)"

definition py_gt :: "pyval \<Rightarrow> real \<Rightarrow> pyerror + bool" where
  \<comment> \<open>\<open>v > c\<close> with a numeric constant: ordering \<open>None\<close> or a \<open>str\<close> against a number raises\<close>
  "py_gt v c = (case v of PNum x \<Rightarrow> Inr (x > c) | _ \<Rightarrow> Inl TypeError)"

definition py_lt :: "pyval \<Rightarrow> real \<Rightarrow> pyerror + bool" where
  "py_lt v c = (case v of PNum x \<Rightarrow> Inr (x < c) | _ \<Rightarrow> Inl TypeError)"

definition py_truediv :: "pyval \<Rightarrow> pyval \<Rightarrow> pyerror + real" where
  \<comment> \<open>\<open>a / b\<close> on Python numbers\<close>
  "py_truediv a b =
     (case (a, b) of
        (PNum x, PNum y) \<Rightarrow> (if y = 0 then Inl ZeroDivisionError else Inr (x / y))
      | _ \<Rightarrow> Inl TypeError)"

definition py_sub :: "pyval \<Rightarrow> pyval \<Rightarrow> pyerror + real" where
  "py_sub a b = (case (a, b) of (PNum x, PNum y) \<Rightarrow> Inr (x - y) | _ \<Rightarrow> Inl TypeError)"

definition real_mod :: "real \<Rightarrow> real \<Rightarrow> real" where
  \<comment> \<open>Python's \<open>x % m\<close> on numbers, for a non-zero \<open>m\<close>: the result takes the sign of \<open>m\<close>\<close>
  "real_mod x m = x - m * of_int \<lfloor>x / m\<rfloor>"

definition py_mod :: "pyval \<Rightarrow> real \<Rightarrow> pyerror + real" where
  \<comment> \<open>\<open>v % m\<close> with a non-zero numeric constant. On a \<open>str\<close> the operator is printf-style
      formatting, which raises \<open>TypeError\<close> for a string without conversion specifiers;
      strings with conversion specifiers are not distinguished here.\<close>
  "py_mod v m = (case v of PNum x \<Rightarrow> Inr (real_mod x m) | _ \<Rightarrow> Inl TypeError)"

subsection \<open>Double-precision arithmetic\<close>

text \<open>
  \<open>double_round x\<close> is the IEEE 754 binary64 number nearest to \<open>x\<close>, ties to the even
  significand: \<open>x\<close> is scaled by the unit in the last place of its binade (53-bit
  significand, exponent not below -1022, so that the subnormal range has a fixed unit),
  rounded to an integer and scaled back. It is the value of a decimal literal and the
  result of one float operation on the exact result. Magnitudes of \<open>2 ^ 1024\<close> and above
  are infinities in the program and outside the model.
\<close>

definition round_half_even :: "real \<Rightarrow> int" where
  "round_half_even y =
     (let n = \<lfloor>y\<rfloor>; d = y - of_int n
      in if d < 1 / 2 then n else if 1 / 2 < d then n + 1 else if even n then n else n + 1)"

definition double_exponent :: "real \<Rightarrow> int" where
  "double_exponent x = max \<lfloor>log 2 \<bar>x\<bar>\<rfloor> (- 1022)"

definition double_round :: "real \<Rightarrow> real" where
  "double_round x =
     (if x = 0 then 0
      else let u = 2 powr (of_int (double_exponent x) - 52)
           in of_int (round_half_even (x / u)) * u)"

definition fl_add :: "real \<Rightarrow> real \<Rightarrow> real" where
  \<comment> \<open>\<open>a + b\<close> on doubles\<close>
  "fl_add a b = double_round (a + b)"

definition fl_mul :: "real \<Rightarrow> real \<Rightarrow> real" where
  \<comment> \<open>\<open>a * b\<close> on doubles\<close>
  "fl_mul a b = double_round (a * b)"

subsection \<open>Strings\<close>

text \<open>
  Strings are byte lists. \<open>str.lower()\<close> is modelled on the ASCII letters; the two
  marker words and the two hint words searched for below are ASCII.
\<close>

definition lower_char :: "char \<Rightarrow> char" where
  "lower_char c =
     (case map_of (zip ''ABCDEFGHIJKLMNOPQRSTUVWXYZ'' ''abcdefghijklmnopqrstuvwxyz'') c of
        None \<Rightarrow> c
      | Some l \<Rightarrow> l)"

definition lower :: "string \<Rightarrow> string" where
  "lower s = map lower_char s"

fun starts_with :: "string \<Rightarrow> string \<Rightarrow> bool" where
  "starts_with [] s = True"
| "starts_with (p # ps) [] = False"
| "starts_with (p # ps) (c # cs) = (p = c \<and> starts_with ps cs)"

fun contains :: "string \<Rightarrow> string \<Rightarrow> bool" where
  \<comment> \<open>\<open>sub in s\<close>\<close>
  "contains sub [] = (sub = [])"
| "contains sub (c # cs) = (starts_with sub (c # cs) \<or> contains sub cs)"

definition py_lower :: "pyval \<Rightarrow> pyerror + string" where
  \<comment> \<open>\<open>v.lower()\<close>: only a \<open>str\<close> has the method\<close>
  "py_lower v = (case v of PStr s \<Rightarrow> Inr (lower s) | _ \<Rightarrow> Inl AttributeError)"

definition truthy :: "pyval \<Rightarrow> bool" where
  \<comment> \<open>the truth value of \<open>if v:\<close>\<close>
  "truthy v = (case v of PNone \<Rightarrow> False | PNum x \<Rightarrow> x \<noteq> 0 | PStr s \<Rightarrow> s \<noteq> [])"

section \<open>The rule-based detector (\<open>fraud_detector.py\<close>)\<close>

record sector_data =
  income_ratio :: real
  deduction_ratio :: real

definition industry_averages :: "(string \<times> sector_data) list" where
  "industry_averages =
     [(''retail'', \<lparr>income_ratio = 1.0, deduction_ratio = 0.35\<rparr>),
      (''manufacturing'', \<lparr>income_ratio = 1.0, deduction_ratio = 0.28\<rparr>),
      (''services'', \<lparr>income_ratio = 1.0, deduction_ratio = 0.42\<rparr>),
      (''construction'', \<lparr>income_ratio = 1.0, deduction_ratio = 0.38\<rparr>),
      (''agriculture'', \<lparr>income_ratio = 1.0, deduction_ratio = 0.32\<rparr>)]"

definition services_data :: sector_data where
  \<comment> \<open>\<open>self.industry_averages['services']\<close>\<close>
  "services_data = \<lparr>income_ratio = 1.0, deduction_ratio = 0.42\<rparr>"

definition risk_weight_income_deviation :: real where
  "risk_weight_income_deviation = 0.3"

definition risk_weight_deduction_ratio :: real where
  "risk_weight_deduction_ratio = 0.25"

definition risk_weight_historical_inconsistency :: real where
  "risk_weight_historical_inconsistency = 0.2"

definition risk_weight_round_numbers :: real where
  "risk_weight_round_numbers = 0.15"

definition risk_weight_unusual_timing :: real where
  "risk_weight_unusual_timing = 0.1"

record finding =
  risk :: real
  reason :: string

definition no_finding :: finding where
  \<comment> \<open>\<open>{'risk': 0.0, 'reason': ''}\<close>\<close>
  "no_finding = \<lparr>risk = 0.0, reason = []\<rparr>"

text \<open>
  The format specifications of the f-strings (\<open>{x:,.0f}\<close> and \<open>{x:.1%}\<close>) belong to the
  language, not to the repository: they are parameters of the model.
\<close>

record formatters =
  fmt_thousands :: "real \<Rightarrow> string"
  fmt_percent :: "real \<Rightarrow> string"

definition check_industry_deviation ::
  "formatters \<Rightarrow> pyval \<Rightarrow> string \<Rightarrow> filing list \<Rightarrow> pyerror + finding" where
  \<comment> \<open>the sector table is looked up and the history received, neither is used\<close>
  "check_industry_deviation F income business_sector history =
     bind_err (py_lt income 10000) (\<lambda>very_low.
       if very_low then
         (case income of
            PNum x \<Rightarrow> Inr \<lparr>risk = 0.8,
                reason = ''Income (ZMW '' @ fmt_thousands F x @ '') significantly below typical ''
                         @ business_sector @ '' business levels''\<rparr>
          | _ \<Rightarrow> Inl TypeError)
       else bind_err (py_lt income 25000) (\<lambda>low.
         if low then Inr \<lparr>risk = 0.4,
                reason = ''Income below average for '' @ business_sector @ '' sector''\<rparr>
         else Inr no_finding))"

definition check_deduction_ratio :: "formatters \<Rightarrow> real \<Rightarrow> string \<Rightarrow> finding" where
  \<comment> \<open>the comparisons are between doubles and the margin is a float sum: for retail
      \<open>0.35 + 0.1\<close> evaluates to \<open>0.44999999999999996\<close>\<close>
  "check_deduction_ratio F ratio business_sector =
     (let typical_ratio = deduction_ratio (dict_get industry_averages business_sector services_data)
      in if double_round ratio > double_round 0.7 then
           \<lparr>risk = 0.9,
            reason = ''Deductions represent '' @ fmt_percent F ratio @ '' of income (typical: ''
                     @ fmt_percent F typical_ratio @ '')''\<rparr>
         else if double_round ratio > double_round 0.5 then
           \<lparr>risk = 0.6,
            reason = ''High deduction ratio ('' @ fmt_percent F ratio
                     @ '') compared to industry average ('' @ fmt_percent F typical_ratio @ '')''\<rparr>
         else if double_round ratio > fl_add (double_round typical_ratio) (double_round 0.1) then
           \<lparr>risk = 0.3,
            reason = ''Above average deduction ratio for '' @ business_sector @ '' sector''\<rparr>
         else no_finding)"

definition get_risk_level :: "real \<Rightarrow> string" where
  "get_risk_level risk_score =
     (if risk_score \<ge> 0.7 then ''HIGH''
      else if risk_score \<ge> 0.4 then ''MEDIUM''
      else ''LOW'')"

fun positive_incomes :: "filing list \<Rightarrow> pyerror + real list" where
  \<comment> \<open>\<open>[f.get('income', 0) for f in history if f.get('income', 0) > 0]\<close>\<close>
  "positive_incomes [] = Inr []"
| "positive_incomes (f # fs) =
     (case dict_get f ''income'' (PNum 0) of
        PNum x \<Rightarrow> bind_err (positive_incomes fs) (\<lambda>rest. Inr (if x > 0 then x # rest else rest))
      | _ \<Rightarrow> Inl TypeError)"

definition mean :: "real list \<Rightarrow> real" where
  \<comment> \<open>\<open>np.mean\<close> of a non-empty list\<close>
  "mean xs = sum_list xs / real (length xs)"

definition check_historical_consistency ::
  "formatters \<Rightarrow> filing \<Rightarrow> filing list \<Rightarrow> pyerror + finding" where
  "check_historical_consistency F current_filing history =
     (if history = [] then Inr no_finding
      else
        let current_income = dict_get current_filing ''income'' (PNum 0) in
        bind_err (positive_incomes history) (\<lambda>historical_incomes.
          if historical_incomes = [] then Inr no_finding
          else
            let avg_historical = mean historical_incomes in
            if avg_historical > 0 then
              bind_err (py_sub current_income (PNum avg_historical)) (\<lambda>d.
                let deviation = \<bar>d\<bar> / avg_historical in
                if deviation > 0.5 then
                  Inr \<lparr>risk = 0.7,
                       reason = ''Income deviates '' @ fmt_percent F deviation
                                @ '' from historical average''\<rparr>
                else if deviation > 0.3 then
                  Inr \<lparr>risk = 0.4,
                       reason = ''Significant income change from historical pattern''\<rparr>
                else Inr no_finding)
            else Inr no_finding))"

definition is_round_number :: "pyval \<Rightarrow> pyerror + bool" where
  \<comment> \<open>\<open>num % 1000 == 0 or num % 5000 == 0\<close>, the second test only when the first fails\<close>
  "is_round_number num =
     bind_err (py_mod num 1000) (\<lambda>r.
       if r = 0 then Inr True else bind_err (py_mod num 5000) (\<lambda>r5. Inr (r5 = 0)))"

definition count_true :: "bool list \<Rightarrow> nat" where
  \<comment> \<open>\<open>sum\<close> of a list of booleans\<close>
  "count_true bs = length (filter (\<lambda>b. b) bs)"

definition check_round_numbers :: "pyval \<Rightarrow> pyval \<Rightarrow> pyval \<Rightarrow> pyerror + finding" where
  "check_round_numbers income deductions taxable_income =
     bind_err (is_round_number income) (\<lambda>r1.
     bind_err (is_round_number deductions) (\<lambda>r2.
     bind_err (is_round_number taxable_income) (\<lambda>r3.
       let round_count = count_true [r1, r2, r3] in
       if round_count \<ge> 2 then
         Inr \<lparr>risk = 0.5, reason = ''Multiple round numbers suggest estimated figures''\<rparr>
       else if round_count = 1 then
         Inr \<lparr>risk = 0.2, reason = ''Some figures appear rounded''\<rparr>
       else Inr no_finding)))"

definition filing_timing_try :: "pyval \<Rightarrow> pyerror + finding option" where
  \<comment> \<open>the body of the inner \<open>try\<close>; \<open>None\<close> when it falls through\<close>
  "filing_timing_try tax_period =
     (if truthy tax_period then
        bind_err (py_lower tax_period) (\<lambda>l.
          if contains ''early'' l then
            Inr (Some \<lparr>risk = 0.3, reason = ''Unusual filing timing pattern''\<rparr>)
          else bind_err (py_lower tax_period) (\<lambda>l2.
            if contains ''delay'' l2 then
              Inr (Some \<lparr>risk = 0.3, reason = ''Unusual filing timing pattern''\<rparr>)
            else Inr None))
      else Inr None)"

definition check_filing_timing :: "pyval \<Rightarrow> finding" where
  \<comment> \<open>the bare \<open>except: pass\<close> swallows every exception of the inner \<open>try\<close>\<close>
  "check_filing_timing tax_period =
     (case filing_timing_try tax_period of
        Inr (Some f) \<Rightarrow> f
      | _ \<Rightarrow> no_finding)"

definition base_recommendations :: "(string \<times> string) list" where
  "base_recommendations =
     [(''LOW'', ''Standard processing - no additional review required''),
      (''MEDIUM'', ''Consider automated verification checks''),
      (''HIGH'', ''Manual review recommended - request supporting documents'')]"

definition generate_recommendations :: "string \<Rightarrow> string list \<Rightarrow> string" where
  "generate_recommendations risk_level risk_factors =
     (let recommendation = dict_get base_recommendations risk_level ''Review required'';
          recommendation =
            (if list_ex (\<lambda>factor. contains ''deduction'' (lower factor)) risk_factors
             then recommendation @ '' | Verify deduction documentation'' else recommendation);
          recommendation =
            (if list_ex (\<lambda>factor. contains ''income'' (lower factor)) risk_factors
             then recommendation @ '' | Cross-reference with third-party data'' else recommendation)
      in recommendation)"

record breakdown =
  deduction_ratio_value :: real
  taxable_income :: real
  industry_comparison :: finding
  factors_breakdown :: "(string \<times> real) list"

datatype detail = Analysis breakdown | Error pyerror

record assessment =
  score :: real
  level :: string
  factors :: "string list"
  recommendation :: string
  confidence :: real
  detailed_analysis :: detail

definition compute_deduction_ratio :: "pyval \<Rightarrow> pyval \<Rightarrow> pyerror + real" where
  \<comment> \<open>\<open>deductions / income if income > 0 else 0\<close>: the condition is evaluated first, the
      division only when it holds\<close>
  "compute_deduction_ratio deductions income =
     bind_err (py_gt income 0) (\<lambda>positive.
       if positive then py_truediv deductions income else Inr 0)"

definition add_finding :: "finding \<Rightarrow> real \<Rightarrow> string list \<times> real \<Rightarrow> string list \<times> real" where
  \<comment> \<open>\<open>if f['risk'] > 0: risk_factors.append(f['reason']); risk_score += f['risk'] * weight\<close>\<close>
  "add_finding f weight acc =
     (if risk f > 0 then (fst acc @ [reason f], snd acc + risk f * weight) else acc)"

definition analyze_try :: "formatters \<Rightarrow> filing \<Rightarrow> filing list \<Rightarrow> pyerror + assessment" where
  \<comment> \<open>the body of the \<open>try\<close> block of \<open>analyze\<close>; an absent history and an empty one
      take the same branches and are both the empty list\<close>
  "analyze_try F filing_data taxpayer_history =
     (let income = dict_get filing_data ''income'' (PNum 0);
          deductions = dict_get filing_data ''deductions'' (PNum 0)
      in
      bind_err (py_lower (dict_get filing_data ''business_sector'' (PStr ''services''))) (\<lambda>business_sector.
      let tax_period = dict_get filing_data ''tax_period'' (PStr []) in
      bind_err (compute_deduction_ratio deductions income) (\<lambda>ratio.
      bind_err (py_sub income deductions) (\<lambda>taxable.
      bind_err (check_industry_deviation F income business_sector taxpayer_history)
        (\<lambda>industry_risk.
      let acc = add_finding industry_risk risk_weight_income_deviation ([], 0.0);
          deduction_risk = check_deduction_ratio F ratio business_sector;
          acc = add_finding deduction_risk risk_weight_deduction_ratio acc
      in
      bind_err (if taxpayer_history \<noteq> []
                then bind_err (check_historical_consistency F filing_data taxpayer_history)
                       (\<lambda>history_risk. Inr (Some history_risk))
                else Inr None) (\<lambda>history_risk.
      let acc = (case history_risk of
                   Some hr \<Rightarrow> add_finding hr risk_weight_historical_inconsistency acc
                 | None \<Rightarrow> acc)
      in
      bind_err (check_round_numbers income deductions (PNum taxable)) (\<lambda>round_risk.
      let acc = add_finding round_risk risk_weight_round_numbers acc;
          timing_risk = check_filing_timing tax_period;
          acc = add_finding timing_risk risk_weight_unusual_timing acc;
          risk_factors = fst acc;
          risk_score = min (snd acc) 1.0;
          risk_level = get_risk_level risk_score;
          recommendations = generate_recommendations risk_level risk_factors;
          conf = max 0.7 (1.0 - real (length risk_factors) * 0.05)
      in
      Inr \<lparr>score = risk_score,
           level = risk_level,
           factors = risk_factors,
           recommendation = recommendations,
           confidence = conf,
           detailed_analysis = Analysis
             \<lparr>deduction_ratio_value = ratio,
              taxable_income = taxable,
              industry_comparison = industry_risk,
              factors_breakdown =
                [(''income_deviation'', risk industry_risk),
                 (''deduction_ratio'', risk deduction_risk),
                 (''historical_inconsistency'',
                    (case history_risk of Some hr \<Rightarrow> risk hr | None \<Rightarrow> 0)),
                 (''round_numbers'', risk round_risk),
                 (''unusual_timing'', risk timing_risk)]\<rparr>\<rparr>)))))))"

definition analysis_error :: "pyerror \<Rightarrow> assessment" where
  \<comment> \<open>the dict returned by the \<open>except Exception\<close> handler\<close>
  "analysis_error e =
     \<lparr>score = 0.0,
      level = ''LOW'',
      factors = [''Analysis error''],
      recommendation = ''Manual review required due to analysis error'',
      confidence = 0.0,
      detailed_analysis = Error e\<rparr>"

definition analyze :: "formatters \<Rightarrow> filing \<Rightarrow> filing list \<Rightarrow> assessment" where
  "analyze F filing_data taxpayer_history =
     (case analyze_try F filing_data taxpayer_history of
        Inr result \<Rightarrow> result
      | Inl e \<Rightarrow> analysis_error e)"

section \<open>The learned detector (\<open>advanced_fraud_detector.py\<close>)\<close>

text \<open>
  A slot of the NumPy feature array is a float: a finite number, minus infinity or NaN
  (the only non-finite values the extractor can produce from finite inputs, both through
  \<open>np.log1p\<close>, which warns and does not raise).
\<close>

datatype npfloat = Fin real | NegInf | NaN

definition np_log1p :: "pyval \<Rightarrow> pyerror + npfloat" where
  "np_log1p v =
     (case v of
        PNum x \<Rightarrow> Inr (if x > -1 then Fin (ln (1 + x)) else if x = -1 then NegInf else NaN)
      | _ \<Rightarrow> Inl TypeError)"

text \<open>
  The fitted scaler and classifier are scikit-learn objects loaded or trained when the
  detector is constructed. They are the state \<open>self\<close> of the detector and parameters of the
  model: what \<open>scaler.transform\<close>, \<open>ml_model.predict_proba\<close> and
  \<open>ml_model.feature_importances_\<close> answer, each of which may raise. No method modelled
  here assigns to \<open>self\<close>, so the state is passed in and not returned.
\<close>

record detector =
  scaler_transform :: "npfloat list \<Rightarrow> pyerror + real list"
  predict_proba :: "real list \<Rightarrow> pyerror + real list list"
  feature_importances :: "pyerror + real list"

definition feature_names :: "string list" where
  "feature_names =
     [''income'', ''deductions'', ''deduction_ratio'', ''income_industry_deviation'',
      ''historical_income_change'', ''round_number_count'', ''filing_timing_score'']"

definition feature_industry_averages :: "(string \<times> real) list" where
  \<comment> \<open>the table local to \<open>extract_features\<close>\<close>
  "feature_industry_averages = [(''retail'', 50000), (''services'', 60000), (''manufacturing'', 70000)]"

definition historical_income_change :: "pyval \<Rightarrow> filing list \<Rightarrow> pyerror + real" where
  "historical_income_change income taxpayer_history =
     (if taxpayer_history \<noteq> [] then
        bind_err (positive_incomes taxpayer_history) (\<lambda>prev_incomes.
          if prev_incomes \<noteq> [] then
            let avg_historical = mean prev_incomes in
            if avg_historical > 0 then
              bind_err (py_sub income (PNum avg_historical)) (\<lambda>d. Inr (d / avg_historical))
            else Inr 0
          else Inr 0)
      else Inr 0)"

definition extract_features :: "detector \<Rightarrow> filing \<Rightarrow> filing list \<Rightarrow> pyerror + npfloat list" where
  \<comment> \<open>the one row of the \<open>1 \<times> 7\<close> array\<close>
  "extract_features self filing_data taxpayer_history =
     (let income = dict_get filing_data ''income'' (PNum 0);
          deductions = dict_get filing_data ''deductions'' (PNum 0);
          business_sector = dict_get filing_data ''business_sector'' (PStr ''services'')
      in
      bind_err (compute_deduction_ratio deductions income) (\<lambda>ratio.
      let industry_avg = (case business_sector of
                            PStr s \<Rightarrow> dict_get feature_industry_averages s 50000
                          | _ \<Rightarrow> 50000)
      in
      bind_err (if industry_avg > 0
                then bind_err (py_sub income (PNum industry_avg))
                       (\<lambda>d. py_truediv (PNum d) (PNum industry_avg))
                else Inr 0) (\<lambda>income_industry_deviation.
      bind_err (historical_income_change income taxpayer_history) (\<lambda>change.
      bind_err (is_round_number income) (\<lambda>r1.
      bind_err (is_round_number deductions) (\<lambda>r2.
      bind_err (bind_err (py_sub income deductions) (\<lambda>t. is_round_number (PNum t))) (\<lambda>r3.
      let round_number_count = count_true [r1, r2, r3];
          filing_timing_score = 0.1
      in
      bind_err (np_log1p income) (\<lambda>log_income.
      bind_err (np_log1p deductions) (\<lambda>log_deductions.
        Inr [log_income,
             log_deductions,
             Fin ratio,
             Fin income_industry_deviation,
             Fin change,
             Fin (real round_number_count),
             Fin filing_timing_score])))))))))"

datatype outval = VNum real | VBool bool | VDict "(string \<times> real) list" | VErr pyerror

type_synonym pydict = "(string \<times> outval) list"

definition py_index :: "'a list \<Rightarrow> nat \<Rightarrow> pyerror + 'a" where
  \<comment> \<open>\<open>xs[i]\<close> for a non-negative constant \<open>i\<close>\<close>
  "py_index xs i = (if i < length xs then Inr (xs ! i) else Inl IndexError)"

definition np_max :: "real list \<Rightarrow> pyerror + real" where
  "np_max xs = (case xs of [] \<Rightarrow> Inl ValueError | y # ys \<Rightarrow> Inr (fold max ys y))"

definition predict_try :: "detector \<Rightarrow> filing \<Rightarrow> filing list \<Rightarrow> pyerror + pydict" where
  \<comment> \<open>the body of the \<open>try\<close> block of \<open>predict\<close>\<close>
  "predict_try self filing_data taxpayer_history =
     bind_err (extract_features self filing_data taxpayer_history) (\<lambda>features.
     bind_err (scaler_transform self features) (\<lambda>features_scaled.
     bind_err (predict_proba self features_scaled) (\<lambda>proba.
     bind_err (py_index proba 0) (\<lambda>row.
     bind_err (py_index row 1) (\<lambda>fraud_probability.
     bind_err (feature_importances self) (\<lambda>importances.
     let feature_importance = zip feature_names importances in
     bind_err (predict_proba self features_scaled) (\<lambda>proba2.
     bind_err (py_index proba2 0) (\<lambda>row2.
     bind_err (np_max row2) (\<lambda>model_confidence.
       Inr [(''fraud_probability'', VNum fraud_probability),
            (''prediction'', VBool (fraud_probability > 0.5)),
            (''feature_importance'', VDict feature_importance),
            (''model_confidence'', VNum model_confidence)])))))))))"

definition predict :: "detector \<Rightarrow> filing \<Rightarrow> filing list \<Rightarrow> pydict" where
  \<comment> \<open>the value of the key \<open>error\<close> is the text of the exception, here the exception\<close>
  "predict self filing_data taxpayer_history =
     (case predict_try self filing_data taxpayer_history of
        Inr result \<Rightarrow> result
      | Inl e \<Rightarrow>
          [(''fraud_probability'', VNum 0.0),
           (''prediction'', VBool False),
           (''feature_importance'', VDict []),
           (''model_confidence'', VNum 0.0),
           (''error'', VErr e)])"

definition py_getitem :: "pydict \<Rightarrow> string \<Rightarrow> pyerror + outval" where
  \<comment> \<open>\<open>d[k]\<close>\<close>
  "py_getitem d k = (case map_of d k of None \<Rightarrow> Inl KeyError | Some v \<Rightarrow> Inr v)"

text \<open>
  The three float operations of \<open>ensemble_predict\<close> are taken from an arithmetic: with the
  exact one the method computes over the reals, with the double one it computes what the
  code computes, every literal, operand and result a double.
\<close>

record arithmetic =
  literal :: "real \<Rightarrow> real"
  multiply :: "real \<Rightarrow> real \<Rightarrow> real"
  add :: "real \<Rightarrow> real \<Rightarrow> real"

definition exact_arithmetic :: arithmetic where
  "exact_arithmetic = \<lparr>literal = (\<lambda>x. x), multiply = (\<lambda>a b. a * b), add = (\<lambda>a b. a + b)\<rparr>"

definition double_arithmetic :: arithmetic where
  "double_arithmetic = \<lparr>literal = double_round, multiply = fl_mul, add = fl_add\<rparr>"

definition val_times :: "arithmetic \<Rightarrow> outval \<Rightarrow> real \<Rightarrow> pyerror + real" where
  \<comment> \<open>\<open>v * w\<close> for a float \<open>w\<close>; the operand is a float as well, and taking it as a
      literal leaves a double as it is\<close>
  "val_times A v w = (case v of VNum x \<Rightarrow> Inr (multiply A (literal A x) w) | _ \<Rightarrow> Inl TypeError)"

definition ensemble_predict_with ::
  "arithmetic \<Rightarrow> detector \<Rightarrow> filing \<Rightarrow> filing list \<Rightarrow> real \<Rightarrow> pyerror + pydict" where
  "ensemble_predict_with A self filing_data taxpayer_history rule_based_score =
     (let ml_result = predict self filing_data taxpayer_history;
          ml_weight = literal A 0.7;
          rule_weight = literal A 0.3
      in
      bind_err (py_getitem ml_result ''fraud_probability'') (\<lambda>p.
      bind_err (val_times A p ml_weight) (\<lambda>ml_part.
      let ensemble_score =
            add A ml_part (multiply A (literal A rule_based_score) rule_weight)
      in
      bind_err (py_getitem ml_result ''fraud_probability'') (\<lambda>ml_score.
      bind_err (py_getitem ml_result ''model_confidence'') (\<lambda>ml_confidence.
      bind_err (py_getitem ml_result ''feature_importance'') (\<lambda>feature_importance.
        Inr [(''ensemble_score'', VNum ensemble_score),
             (''ml_score'', ml_score),
             (''rule_based_score'', VNum rule_based_score),
             (''final_prediction'', VBool (ensemble_score > literal A 0.6)),
             (''ml_confidence'', ml_confidence),
             (''feature_importance'', feature_importance)]))))))"

definition ensemble_predict ::
  "detector \<Rightarrow> filing \<Rightarrow> filing list \<Rightarrow> real \<Rightarrow> pyerror + pydict" where
  \<comment> \<open>the method over the reals\<close>
  "ensemble_predict = ensemble_predict_with exact_arithmetic"

definition ensemble_predict_double ::
  "detector \<Rightarrow> filing \<Rightarrow> filing list \<Rightarrow> real \<Rightarrow> pyerror + pydict" where
  \<comment> \<open>the method on doubles\<close>
  "ensemble_predict_double = ensemble_predict_with double_arithmetic"

subsection \<open>Fixtures\<close>

definition plain_formatters :: formatters where
  "plain_formatters = \<lparr>fmt_thousands = (\<lambda>x. ''0''), fmt_percent = (\<lambda>x. ''0.0%'')\<rparr>"

definition constant_detector :: "real \<Rightarrow> detector" where
  \<comment> \<open>a classifier that answers the class probabilities \<open>[1 - p, p]\<close> for every filing\<close>
  "constant_detector p =
     \<lparr>scaler_transform = (\<lambda>v. Inr (map (\<lambda>x. case x of Fin r \<Rightarrow> r | _ \<Rightarrow> 0) v)),
      predict_proba = (\<lambda>v. Inr [[1 - p, p]]),
      feature_importances = Inr [0.2, 0.2, 0.2, 0.1, 0.1, 0.1, 0.1]\<rparr>"

definition failing_detector :: detector where
  \<comment> \<open>a detector whose scaler rejects every feature array\<close>
  "failing_detector =
     \<lparr>scaler_transform = (\<lambda>v. Inl ValueError),
      predict_proba = (\<lambda>v. Inr [[1, 0]]),
      feature_importances = Inr []\<rparr>"

definition high_risk_scenario :: filing where
  \<comment> \<open>the filing of the "High Risk Filing" scenario of \<open>final_validation.py\<close>\<close>
  "high_risk_scenario =
     [(''income'', PNum 10000), (''deductions'', PNum 8000), (''business_sector'', PStr ''retail'')]"

definition null_income_filing :: filing where
  \<comment> \<open>a filing whose income is JSON null\<close>
  "null_income_filing =
     [(''income'', PNone), (''deductions'', PNum 8000), (''business_sector'', PStr ''retail'')]"

definition five_factor_filing :: filing where
  \<comment> \<open>a filing on which all five checks report a finding, given \<open>five_factor_history\<close>\<close>
  "five_factor_filing =
     [(''income'', PNum 9999), (''deductions'', PNum 8000), (''business_sector'', PStr ''retail''),
      (''tax_period'', PStr ''Delayed'')]"

definition five_factor_history :: "filing list" where
  "five_factor_history = [[(''income'', PNum 42000)]]"


definition early_filing :: filing where
  \<comment> \<open>a filing whose period label carries the marker "early"\<close>
  "early_filing =
     [(''income'', PNum 50000), (''deductions'', PNum 15000),
      (''business_sector'', PStr ''services''), (''tax_period'', PStr ''early-2024'')]"

definition quarter_filing :: filing where
  \<comment> \<open>the same filing with a period label without marker\<close>
  "quarter_filing =
     [(''income'', PNum 50000), (''deductions'', PNum 15000),
      (''business_sector'', PStr ''services''), (''tax_period'', PStr ''2024-Q1'')]"

definition margin_filing :: filing where
  \<comment> \<open>a retail filing whose deduction ratio 0.45 is the typical ratio 0.35 plus the margin 0.1\<close>
  "margin_filing =
     [(''income'', PNum 10000), (''deductions'', PNum 4500), (''business_sector'', PStr ''retail'')]"

definition year_period_filing :: filing where
  \<comment> \<open>a filing whose period label is the JSON number 2024\<close>
  "year_period_filing =
     [(''income'', PNum 50000), (''deductions'', PNum 15000),
      (''business_sector'', PStr ''services''), (''tax_period'', PNum 2024)]"

definition null_sector_filing :: filing where
  "null_sector_filing =
     [(''income'', PNum 50000), (''deductions'', PNum 15000), (''business_sector'', PNone)]"



definition is_number :: "pyval \<Rightarrow> bool" where
  "is_number v = (case v of PNum x \<Rightarrow> True | _ \<Rightarrow> False)"

definition is_string :: "pyval \<Rightarrow> bool" where
  "is_string v = (case v of PStr s \<Rightarrow> True | _ \<Rightarrow> False)"


section \<open>Properties\<close>

subsection \<open>Evaluation rules\<close>

lemmas eval_rules =
  dict_get_def bind_err_def py_gt_def py_lt_def py_truediv_def py_sub_def py_mod_def real_mod_def
  py_lower_def lower_def lower_char_def truthy_def Let_def

lemmas eval_learned =
  extract_features_def compute_deduction_ratio_def feature_industry_averages_def
  historical_income_change_def is_round_number_def count_true_def np_log1p_def
  predict_def predict_try_def ensemble_predict_def ensemble_predict_with_def
  exact_arithmetic_def py_getitem_def val_times_def py_index_def np_max_def feature_names_def

subsection \<open>Rounding to doubles\<close>

lemma round_half_even_error: "\<bar>of_int (round_half_even y) - y\<bar> \<le> 1 / 2"
  unfolding round_half_even_def Let_def by (auto; linarith)

lemma double_round_eval:
  assumes "1 \<le> x * 2 ^ n" and "x * 2 ^ n < 2" and "n \<le> 1022"
  shows "double_round x = of_int (round_half_even (x * 2 ^ (n + 52))) / 2 ^ (n + 52)"
proof -
  have pos: "0 < x"
  proof (rule ccontr)
    assume "\<not> 0 < x"
    then have "x * 2 ^ n \<le> 0" by (simp add: mult_nonpos_nonneg)
    with assms(1) show False by simp
  qed
  have lo: "2 powr (- real n) = 1 / 2 ^ n"
    by (simp add: powr_minus powr_realpow field_simps)
  have hi: "2 powr (- real n + 1) = 2 / 2 ^ n"
  proof -
    have "2 powr (- real n + 1) = 2 powr (- real n) * 2 powr 1"
      by (rule powr_add)
    then show ?thesis by (simp add: lo)
  qed
  have "2 powr (- real n) \<le> x"
    using assms(1) unfolding lo by (simp add: field_simps)
  moreover have "x < 2 powr (- real n + 1)"
    using assms(2) unfolding hi by (simp add: field_simps)
  ultimately have "\<lfloor>log 2 x\<rfloor> = - int n"
    using pos by (subst floor_log_eq_powr_iff) auto
  then have e: "double_exponent x = - int n"
    using pos assms(3) by (simp add: double_exponent_def)
  have u: "(2::real) powr (of_int (double_exponent x) - 52) = 1 / 2 ^ (n + 52)"
  proof -
    have "real_of_int (double_exponent x) - 52 = - real (n + 52)"
      by (simp add: e)
    then have "(2::real) powr (of_int (double_exponent x) - 52) = 2 powr (- real (n + 52))"
      by simp
    also have "\<dots> = 1 / 2 ^ (n + 52)"
      by (simp only: powr_minus powr_realpow zero_less_numeral) (simp add: field_simps)
    finally show ?thesis .
  qed
  show ?thesis
    using pos unfolding double_round_def Let_def u by simp
qed

lemma double_round_error:
  assumes "\<bar>x\<bar> < 2"
  shows "\<bar>double_round x - x\<bar> \<le> 1 / 2 ^ 53"
proof (cases "x = 0")
  case True
  then show ?thesis by (simp add: double_round_def)
next
  case False
  define e where "e = double_exponent x"
  define u where "u = (2::real) powr (of_int e - 52)"
  have upos: "0 < u" by (simp add: u_def)
  have "log 2 \<bar>x\<bar> < 1"
    using assms False by (simp add: log_less_iff)
  then have "\<lfloor>log 2 \<bar>x\<bar>\<rfloor> < 1" by (simp add: floor_less_iff)
  then have e0: "e \<le> 0" by (simp add: e_def double_exponent_def)
  have "u \<le> 2 powr (- 52)"
    unfolding u_def using e0 by (intro powr_mono) simp_all
  also have "\<dots> = 1 / 2 ^ 52"
    using powr_realpow [of 2 52] by (simp add: powr_minus field_simps)
  finally have ule: "u \<le> 1 / 2 ^ 52" .
  have dr: "double_round x = of_int (round_half_even (x / u)) * u"
    using False by (simp add: double_round_def Let_def e_def u_def)
  have "\<bar>double_round x - x\<bar> = \<bar>of_int (round_half_even (x / u)) - x / u\<bar> * u"
  proof -
    have "double_round x - x = (of_int (round_half_even (x / u)) - x / u) * u"
      using upos by (simp add: dr field_simps)
    then show ?thesis using upos by (simp add: abs_mult)
  qed
  also have "\<dots> \<le> (1 / 2) * u"
    using round_half_even_error [of "x / u"] upos by (intro mult_right_mono) simp_all
  also have "\<dots> \<le> (1 / 2) * (1 / 2 ^ 52)"
    using ule by simp
  finally show ?thesis by simp
qed


lemma fl_mul_error:
  assumes "\<bar>x\<bar> \<le> 1" and "0 \<le> c" and "c \<le> 1"
  shows "\<bar>fl_mul (double_round x) (double_round c) - c * x\<bar> \<le> 4 / 2 ^ 53"
proof -
  define eps :: real where "eps = 1 / 2 ^ 53"
  have eps: "0 < eps" "eps \<le> 1 / 10" by (simp_all add: eps_def)
  have x': "\<bar>double_round x - x\<bar> \<le> eps"
    using assms(1) double_round_error [of x] by (simp add: eps_def)
  have c': "\<bar>double_round c - c\<bar> \<le> eps"
    using assms(2,3) double_round_error [of c] by (simp add: eps_def)
  have x2: "\<bar>double_round x\<bar> \<le> 2"
    using x' assms(1) eps by linarith
  have "double_round x * double_round c - c * x
          = double_round x * (double_round c - c) + c * (double_round x - x)"
    by (simp add: algebra_simps)
  moreover have "\<bar>double_round x * (double_round c - c)\<bar> \<le> 2 * eps"
    unfolding abs_mult using x2 c' by (intro mult_mono) simp_all
  moreover have "\<bar>c * (double_round x - x)\<bar> \<le> 1 * eps"
    unfolding abs_mult using assms(2,3) x' by (intro mult_mono) simp_all
  ultimately have d: "\<bar>double_round x * double_round c - c * x\<bar> \<le> 3 * eps"
    by linarith
  have "\<bar>c * x\<bar> \<le> 1"
  proof -
    have "\<bar>c * x\<bar> = c * \<bar>x\<bar>" using assms(2) by (simp add: abs_mult)
    also have "\<dots> \<le> 1 * 1" using assms by (intro mult_mono) simp_all
    finally show ?thesis by simp
  qed
  with d eps have "\<bar>double_round x * double_round c\<bar> < 2" by linarith
  then have "\<bar>fl_mul (double_round x) (double_round c)
               - double_round x * double_round c\<bar> \<le> eps"
    unfolding fl_mul_def eps_def by (rule double_round_error)
  with d have "\<bar>fl_mul (double_round x) (double_round c) - c * x\<bar> \<le> 4 * eps"
    by linarith
  then show ?thesis by (simp add: eps_def)
qed

lemma weighted_sum_error:
  assumes "0 \<le> p" "p \<le> 1" "0 \<le> r" "r \<le> 1"
  shows "\<bar>fl_add (fl_mul (double_round p) (double_round 0.7))
                 (fl_mul (double_round r) (double_round 0.3))
           - (0.7 * p + 0.3 * r)\<bar> \<le> 1 / 10 ^ 9"
proof -
  define a where "a = fl_mul (double_round p) (double_round 0.7)"
  define b where "b = fl_mul (double_round r) (double_round 0.3)"
  define eps :: real where "eps = 1 / 2 ^ 53"
  have eps: "0 < eps" "eps \<le> 1 / 10000000000" by (simp_all add: eps_def)
  have a: "\<bar>a - 0.7 * p\<bar> \<le> 4 * eps"
    unfolding a_def eps_def using assms fl_mul_error [of p "0.7"] by simp
  have b: "\<bar>b - 0.3 * r\<bar> \<le> 4 * eps"
    unfolding b_def eps_def using assms fl_mul_error [of r "0.3"] by simp
  have "\<bar>a + b\<bar> < 2"
    using a b assms eps by linarith
  then have "\<bar>fl_add a b - (a + b)\<bar> \<le> eps"
    unfolding fl_add_def eps_def by (rule double_round_error)
  with a b eps have "\<bar>fl_add a b - (0.7 * p + 0.3 * r)\<bar> \<le> 1 / 1000000000"
    by linarith
  then show ?thesis by (simp add: a_def b_def)
qed

lemma round_half_even_bound:
  assumes "\<bar>y\<bar> \<le> of_int m"
  shows "\<bar>real_of_int (round_half_even y)\<bar> \<le> of_int m"
proof -
  define n where "n = \<lfloor>y\<rfloor>"
  have f: "of_int n \<le> y" "y < of_int n + 1"
    unfolding n_def by linarith+
  from f assms have "real_of_int n \<le> of_int m" "- real_of_int m < of_int n + 1"
    by linarith+
  then have lo: "- m \<le> n" and hi: "n \<le> m"
    by linarith+
  have up: "n + 1 \<le> m" if "0 < y - of_int n"
  proof -
    from that assms have "real_of_int n < of_int m" by linarith
    then show ?thesis by linarith
  qed
  have "round_half_even y = n \<or> (round_half_even y = n + 1 \<and> 0 < y - of_int n)"
    unfolding round_half_even_def Let_def n_def by auto
  then show ?thesis
    using lo hi up by auto
qed

lemma double_round_grid:
  "double_round z \<le> 5404319552844595 / 2 ^ 53 \<or> 5404319552844596 / 2 ^ 53 \<le> double_round z"
proof (cases "z = 0")
  case True
  then show ?thesis by (simp add: double_round_def)
next
  case False
  define e where "e = double_exponent z"
  define u where "u = (2::real) powr (of_int e - 52)"
  define N where "N = round_half_even (z / u)"
  have upos: "0 < u" by (simp add: u_def)
  have s: "double_round z = of_int N * u"
    using False by (simp add: double_round_def Let_def e_def u_def N_def)
  show ?thesis
  proof (cases "- 1 \<le> e")
    case True
    define k where "k = nat (e + 1)"
    have eq: "real_of_int e - 52 = real k - 53"
      using True by (simp add: k_def)
    have "u = 2 powr (real k - 53)" by (simp only: u_def eq)
    also have "\<dots> = 2 powr (real k) / 2 powr 53" by (rule powr_diff)
    also have "\<dots> = 2 ^ k / 2 ^ 53"
      using powr_realpow [of 2 k] powr_realpow [of 2 53] by simp
    finally have u: "u = 2 ^ k / 2 ^ 53" .
    define M where "M = N * 2 ^ k"
    have dz: "double_round z = real_of_int M / 9007199254740992"
      by (simp add: s u M_def)
    consider "M \<le> 5404319552844595" | "5404319552844596 \<le> M"
      by linarith
    then show ?thesis
    proof cases
      case 1
      then have "real_of_int M \<le> 5404319552844595" by linarith
      then show ?thesis by (simp add: dz)
    next
      case 2
      then have "5404319552844596 \<le> real_of_int M" by linarith
      then show ?thesis by (simp add: dz)
    qed
  next
    case False
    then have e2: "e \<le> - 2" by simp
    have e3: "- 1022 \<le> e" by (simp add: e_def double_exponent_def)
    have "\<lfloor>log 2 \<bar>z\<bar>\<rfloor> \<le> e" by (simp add: e_def double_exponent_def)
    with e2 have "\<lfloor>log 2 \<bar>z\<bar>\<rfloor> < - 1" by linarith
    then have "log 2 \<bar>z\<bar> < - 1" by (simp add: floor_less_iff)
    then have zhalf: "\<bar>z\<bar> < 1 / 2"
      using \<open>z \<noteq> 0\<close> by (simp add: log_less_iff powr_minus)
    define k where "k = nat (51 - e)"
    have eq: "real_of_int e - 52 = - real k - 1"
      using e2 by (simp add: k_def)
    have "u = 2 powr (- real k - 1)" by (simp only: u_def eq)
    also have "\<dots> = 2 powr (- real k) / 2 powr 1" by (rule powr_diff)
    also have "\<dots> = 1 / (2 * 2 ^ k)"
      using powr_realpow [of 2 k] by (simp add: powr_minus field_simps)
    finally have u: "u = 1 / (2 * 2 ^ k)" .
    have "\<bar>z / u\<bar> \<le> of_int (2 ^ k)"
      using zhalf by (simp add: u abs_mult field_simps)
    then have "\<bar>real_of_int N\<bar> \<le> of_int (2 ^ k)"
      unfolding N_def by (rule round_half_even_bound)
    then have "\<bar>double_round z\<bar> \<le> 2 ^ k * u"
      using upos by (simp add: s abs_mult)
    also have "\<dots> = 1 / 2" by (simp add: u)
    finally have "\<bar>double_round z\<bar> \<le> 1 / 2" .
    then have "double_round z \<le> 5404319552844595 / 9007199254740992" by linarith
    then show ?thesis by simp
  qed
qed

text \<open>
  The doubles of the literals and inputs used below, each a 53-bit significand over a power
  of two, and the float sums and products taken from them.
\<close>

lemma double_round_zero: "double_round 0 = 0"
  by (simp add: double_round_def)

lemma double_round_0_7: "double_round (7 / 10) = 3152519739159347 / 2 ^ 52"
  by (subst double_round_eval [where n = 1]) (simp_all add: round_half_even_def)

lemma double_round_0_5: "double_round (1 / 2) = 1 / 2"
  by (subst double_round_eval [where n = 1]) (simp_all add: round_half_even_def)

lemma double_round_0_6: "double_round (3 / 5) = 5404319552844595 / 2 ^ 53"
  by (subst double_round_eval [where n = 1]) (simp_all add: round_half_even_def)

lemma double_round_0_3: "double_round (3 / 10) = 5404319552844595 / 2 ^ 54"
  by (subst double_round_eval [where n = 2]) (simp_all add: round_half_even_def)

lemma double_round_0_8: "double_round (4 / 5) = 3602879701896397 / 2 ^ 52"
  by (subst double_round_eval [where n = 1]) (simp_all add: round_half_even_def)

lemma double_round_0_45: "double_round (9 / 20) = 8106479329266893 / 2 ^ 54"
  by (subst double_round_eval [where n = 2]) (simp_all add: round_half_even_def)

lemma double_round_0_42: "double_round (21 / 50) = 7566047373982433 / 2 ^ 54"
  by (subst double_round_eval [where n = 2]) (simp_all add: round_half_even_def)

lemma double_round_0_38: "double_round (19 / 50) = 3422735716801577 / 2 ^ 53"
  by (subst double_round_eval [where n = 2]) (simp_all add: round_half_even_def)

lemma double_round_0_48: "double_round (12 / 25) = 1080863910568919 / 2 ^ 51"
  by (subst double_round_eval [where n = 2]) (simp_all add: round_half_even_def)

lemma double_round_0_462: "double_round (231 / 500) = 8322652111380677 / 2 ^ 54"
  by (subst double_round_eval [where n = 2]) (simp_all add: round_half_even_def)

lemma double_round_0_922: "double_round (461 / 500) = 8304637712871195 / 2 ^ 53"
  by (subst double_round_eval [where n = 1]) (simp_all add: round_half_even_def)

lemma double_round_ratio_five: "double_round (8000 / 9999) = 7206480051797973 / 2 ^ 53"
  by (subst double_round_eval [where n = 1]) (simp_all add: round_half_even_def)

text \<open>
  The margin of each sector, \<open>typical_ratio + 0.1\<close> as a float sum. For retail it is
  \<open>0.44999999999999996\<close>, one unit below the double of 0.45; for the other four sectors
  it is not below the double of the decimal sum.
\<close>

lemma retail_margin:
  "fl_add (double_round (7 / 20)) (double_round (1 / 10)) = 2026619832316723 / 2 ^ 52"
  unfolding fl_add_def
  apply (subst double_round_eval [where x = "7 / 20" and n = 2], simp, simp, simp)
  apply (subst double_round_eval [where x = "1 / 10" and n = 4], simp, simp, simp)
  apply (simp add: round_half_even_def)
  apply (subst double_round_eval [where n = 2])
     apply (simp_all add: round_half_even_def)
  done

lemma services_margin:
  "fl_add (double_round (21 / 50)) (double_round (1 / 10)) = 1170935903116329 / 2 ^ 51"
  unfolding fl_add_def
  apply (subst double_round_eval [where x = "21 / 50" and n = 2], simp, simp, simp)
  apply (subst double_round_eval [where x = "1 / 10" and n = 4], simp, simp, simp)
  apply (simp add: round_half_even_def)
  apply (subst double_round_eval [where n = 1])
     apply (simp_all add: round_half_even_def)
  done

lemma agriculture_margin:
  "fl_add (double_round (8 / 25)) (double_round (1 / 10)) = 3783023686991217 / 2 ^ 53"
  unfolding fl_add_def
  apply (subst double_round_eval [where x = "8 / 25" and n = 2], simp, simp, simp)
  apply (subst double_round_eval [where x = "1 / 10" and n = 4], simp, simp, simp)
  apply (simp add: round_half_even_def)
  apply (subst double_round_eval [where n = 2])
     apply (simp_all add: round_half_even_def)
  done

lemma manufacturing_margin:
  "fl_add (double_round (7 / 25)) (double_round (1 / 10)) = 3422735716801577 / 2 ^ 53"
  unfolding fl_add_def
  apply (subst double_round_eval [where x = "7 / 25" and n = 2], simp, simp, simp)
  apply (subst double_round_eval [where x = "1 / 10" and n = 4], simp, simp, simp)
  apply (simp add: round_half_even_def)
  apply (subst double_round_eval [where n = 2])
     apply (simp_all add: round_half_even_def)
  done

lemma construction_margin:
  "fl_add (double_round (19 / 50)) (double_round (1 / 10)) = 1080863910568919 / 2 ^ 51"
  unfolding fl_add_def
  apply (subst double_round_eval [where x = "19 / 50" and n = 2], simp, simp, simp)
  apply (subst double_round_eval [where x = "1 / 10" and n = 4], simp, simp, simp)
  apply (simp add: round_half_even_def)
  apply (subst double_round_eval [where n = 2])
     apply (simp_all add: round_half_even_def)
  done

text \<open>The deduction check at the ratios of the fixtures.\<close>

lemmas eval_deduction =
  check_deduction_ratio_def Let_def dict_get_def industry_averages_def services_data_def
  no_finding_def double_round_zero double_round_0_7 double_round_0_5

lemma deduction_retail_0_8:
  "check_deduction_ratio F (4 / 5) ''retail'' =
     \<lparr>risk = 0.9,
      reason = ''Deductions represent '' @ fmt_percent F (4 / 5) @ '' of income (typical: ''
               @ fmt_percent F (7 / 20) @ '')''\<rparr>"
  by (simp add: eval_deduction double_round_0_8)

lemma deduction_retail_five:
  "check_deduction_ratio F (8000 / 9999) ''retail'' =
     \<lparr>risk = 0.9,
      reason = ''Deductions represent '' @ fmt_percent F (8000 / 9999)
               @ '' of income (typical: '' @ fmt_percent F (7 / 20) @ '')''\<rparr>"
  by (simp add: eval_deduction double_round_ratio_five)


lemma deduction_services_0_3:
  "check_deduction_ratio F (3 / 10) ''services'' = \<lparr>risk = 0, reason = []\<rparr>"
  by (simp add: eval_deduction double_round_0_3 services_margin)

lemma deduction_retail_0_45:
  "check_deduction_ratio F (9 / 20) ''retail'' =
     \<lparr>risk = 0.3, reason = ''Above average deduction ratio for retail sector''\<rparr>"
  by (simp add: eval_deduction double_round_0_45 retail_margin)

lemma deduction_agriculture_0_42:
  "check_deduction_ratio F (21 / 50) ''agriculture'' = \<lparr>risk = 0, reason = []\<rparr>"
  by (simp add: eval_deduction double_round_0_42 agriculture_margin)

lemma deduction_manufacturing_0_38:
  "check_deduction_ratio F (19 / 50) ''manufacturing'' = \<lparr>risk = 0, reason = []\<rparr>"
  by (simp add: eval_deduction double_round_0_38 manufacturing_margin)

lemma deduction_construction_0_48:
  "check_deduction_ratio F (12 / 25) ''construction'' = \<lparr>risk = 0, reason = []\<rparr>"
  by (simp add: eval_deduction double_round_0_48 construction_margin)

text \<open>The weighted sum of the ensemble at the two boundary inputs.\<close>

lemma boundary_product_1:
  "fl_mul (8322652111380677 / 2 ^ 54) (3152519739159347 / 2 ^ 52) = 2912928238983237 / 2 ^ 53"
  unfolding fl_mul_def
  by (subst double_round_eval [where n = 2]) (simp_all add: round_half_even_def)

lemma boundary_product_2:
  "fl_mul (8304637712871195 / 2 ^ 53) (5404319552844595 / 2 ^ 54) = 4982782627722717 / 2 ^ 54"
  unfolding fl_mul_def
  by (subst double_round_eval [where n = 2]) (simp_all add: round_half_even_def)

lemma boundary_sum_1:
  "fl_add (2912928238983237 / 2 ^ 53) (4982782627722717 / 2 ^ 54) = 5404319552844596 / 2 ^ 53"
  unfolding fl_add_def
  by (subst double_round_eval [where n = 1]) (simp_all add: round_half_even_def)

lemma boundary_product_3:
  "fl_mul (5404319552844595 / 2 ^ 53) (3152519739159347 / 2 ^ 52) = 7566047373982433 / 2 ^ 54"
  unfolding fl_mul_def
  by (subst double_round_eval [where n = 2]) (simp_all add: round_half_even_def)

lemma boundary_product_4:
  "fl_mul (5404319552844595 / 2 ^ 53) (5404319552844595 / 2 ^ 54) = 3242591731706757 / 2 ^ 54"
  unfolding fl_mul_def
  by (subst double_round_eval [where n = 3]) (simp_all add: round_half_even_def)

lemma boundary_sum_2:
  "fl_add (7566047373982433 / 2 ^ 54) (3242591731706757 / 2 ^ 54) = 5404319552844595 / 2 ^ 53"
  unfolding fl_add_def
  by (subst double_round_eval [where n = 1]) (simp_all add: round_half_even_def)

lemma weighted_sum_above:
  "fl_add (fl_mul (double_round (231 / 500)) (double_round (7 / 10)))
          (fl_mul (double_round (461 / 500)) (double_round (3 / 10)))
     = 5404319552844596 / 2 ^ 53"
  by (simp only: double_round_0_462 double_round_0_922 double_round_0_7 double_round_0_3
      boundary_product_1 boundary_product_2 boundary_sum_1)

lemma weighted_sum_at:
  "fl_add (fl_mul (double_round (3 / 5)) (double_round (7 / 10)))
          (fl_mul (double_round (3 / 5)) (double_round (3 / 10)))
     = 5404319552844595 / 2 ^ 53"
  by (simp only: double_round_0_6 double_round_0_7 double_round_0_3
      boundary_product_3 boundary_product_4 boundary_sum_2)

lemma double_round_above_six_tenths:
  "double_round (3 / 5) < double_round z \<longleftrightarrow> 3 / 5 < double_round z"
proof -
  have c: "double_round (3 / 5) = 5404319552844595 / 9007199254740992"
    using double_round_0_6 by simp
  have g: "double_round z \<le> 5404319552844595 / 9007199254740992
         \<or> 5404319552844596 / 9007199254740992 \<le> double_round z"
    using double_round_grid [of z] by simp
  show ?thesis
    unfolding c using g by auto
qed

subsection \<open>The result of \<open>predict\<close>\<close>

lemma predict_error_key:
  "map_of (predict self f h) ''error'' =
     (case predict_try self f h of Inl e \<Rightarrow> Some (VErr e) | Inr d \<Rightarrow> None)"
  by (auto simp: predict_def predict_try_def bind_err_def Let_def split: sum.splits)

lemma predict_fraud_probability:
  "\<exists>p. map_of (predict self f h) ''fraud_probability'' = Some (VNum p)"
  by (auto simp: predict_def predict_try_def bind_err_def Let_def split: sum.splits)

lemma predict_model_confidence:
  "\<exists>c. map_of (predict self f h) ''model_confidence'' = Some (VNum c)"
  by (auto simp: predict_def predict_try_def bind_err_def Let_def split: sum.splits)

lemma predict_feature_importance:
  "\<exists>fi. map_of (predict self f h) ''feature_importance'' = Some (VDict fi)"
  by (auto simp: predict_def predict_try_def bind_err_def Let_def split: sum.splits)

subsection \<open>Sequencing\<close>

lemma bind_err_Inr_iff:
  "bind_err r k = Inr v \<longleftrightarrow> (\<exists>u. r = Inr u \<and> k u = Inr v)"
  by (cases r) (simp_all add: bind_err_def)


lemma bind_err_Inr: "bind_err (Inr v) k = k v"
  by (simp add: bind_err_def)

lemma bind_err_Inl: "bind_err (Inl e) k = Inl e"
  by (simp add: bind_err_def)

lemma bind_err_weak_cong: "r = r' \<Longrightarrow> bind_err r k = bind_err r' k"
  by simp

subsection \<open>The inputs that \<open>extract_features\<close> reads\<close>

lemma extract_features_shape:
  assumes "extract_features self f h = Inr v"
  shows "\<exists>a b r d c n. v = [a, b, Fin r, Fin d, Fin c, Fin n, Fin 0.1]
           \<and> compute_deduction_ratio (dict_get f ''deductions'' (PNum 0))
                (dict_get f ''income'' (PNum 0)) = Inr r
           \<and> np_log1p (dict_get f ''income'' (PNum 0)) = Inr a
           \<and> np_log1p (dict_get f ''deductions'' (PNum 0)) = Inr b"
  using assms
  by (auto simp: extract_features_def Let_def bind_err_Inr_iff)

subsection \<open>No step divides by zero\<close>
















subsection \<open>The findings that \<open>analyze\<close> collects\<close>

lemmas eval_analyze =
  analyze_try_def compute_deduction_ratio_def check_industry_deviation_def
  check_historical_consistency_def check_round_numbers_def
  is_round_number_def count_true_def check_filing_timing_def filing_timing_try_def
  add_finding_def no_finding_def get_risk_level_def
  industry_averages_def services_data_def mean_def
  risk_weight_income_deviation_def risk_weight_deduction_ratio_def
  risk_weight_historical_inconsistency_def risk_weight_round_numbers_def
  risk_weight_unusual_timing_def

lemma add_finding_length:
  "length (fst acc) \<le> n \<Longrightarrow> length (fst (add_finding fd w acc)) \<le> Suc n"
  by (simp add: add_finding_def)

lemma five_findings:
  "length (fst (add_finding f5 w5 (add_finding f4 w4 (add_finding f3 w3
      (add_finding f2 w2 (add_finding f1 w1 ([], s))))))) \<le> 5"
proof -
  have "length (fst (([]::string list), s)) \<le> 0" by simp
  from this [THEN add_finding_length, THEN add_finding_length, THEN add_finding_length,
      THEN add_finding_length, THEN add_finding_length]
  show ?thesis by (simp add: numeral_eq_Suc)
qed

lemma four_findings:
  "length (fst (add_finding f5 w5 (add_finding f4 w4
      (add_finding f2 w2 (add_finding f1 w1 ([], s)))))) \<le> 5"
proof -
  have "length (fst (([]::string list), s)) \<le> 0" by simp
  from this [THEN add_finding_length, THEN add_finding_length, THEN add_finding_length,
      THEN add_finding_length]
  have "length (fst (add_finding f5 w5 (add_finding f4 w4
      (add_finding f2 w2 (add_finding f1 w1 ([], s)))))) \<le> Suc (Suc (Suc (Suc 0)))" .
  then show ?thesis by simp
qed

lemma analyze_try_factors:
  assumes "analyze_try F f h = Inr a"
  shows "length (factors a) \<le> 5
       \<and> confidence a = max 0.7 (1 - real (length (factors a)) * 0.05)"
  using assms
  by (auto simp: analyze_try_def bind_err_def Let_def five_findings four_findings
      split: sum.splits option.splits if_splits)

text \<open>
  Without a history the weighted findings add up to at most
  \<open>0.3 \<times> 0.8 + 0.25 \<times> 0.9 + 0.15 \<times> 0.5 + 0.1 \<times> 0.3 = 0.57\<close>, below the HIGH threshold.
\<close>

lemma check_industry_deviation_risk:
  "check_industry_deviation F i s h = Inr fd \<Longrightarrow> 0 \<le> risk fd \<and> risk fd \<le> 0.8"
  by (auto simp: check_industry_deviation_def bind_err_def py_lt_def no_finding_def
      split: pyval.splits if_splits)

lemma check_deduction_ratio_risk:
  "0 \<le> risk (check_deduction_ratio F r s) \<and> risk (check_deduction_ratio F r s) \<le> 0.9"
  by (simp add: check_deduction_ratio_def Let_def no_finding_def)

lemma check_round_numbers_risk:
  "check_round_numbers a b c = Inr fd \<Longrightarrow> 0 \<le> risk fd \<and> risk fd \<le> 0.5"
  by (auto simp: check_round_numbers_def bind_err_Inr_iff Let_def no_finding_def
      split: if_splits)

lemma check_filing_timing_risk:
  "0 \<le> risk (check_filing_timing tp) \<and> risk (check_filing_timing tp) \<le> 0.3"
  by (auto simp: check_filing_timing_def filing_timing_try_def bind_err_def no_finding_def
      split: sum.splits option.splits if_splits)

lemma add_finding_score:
  "0 \<le> risk fd \<Longrightarrow> risk fd \<le> m \<Longrightarrow> 0 \<le> w \<Longrightarrow>
   snd (add_finding fd w acc) \<le> snd acc + m * w"
  by (auto simp: add_finding_def mult_right_mono intro: order_trans [OF _ mult_nonneg_nonneg])

lemma no_history_score:
  assumes "analyze_try F f [] = Inr a"
  shows "score a \<le> 0.57 \<and> level a \<noteq> ''HIGH''"
proof -
  from assms obtain f1 f4 r s tp where
    a: "score a = min (snd (add_finding (check_filing_timing tp) risk_weight_unusual_timing
          (add_finding f4 risk_weight_round_numbers
            (add_finding (check_deduction_ratio F r s) risk_weight_deduction_ratio
              (add_finding f1 risk_weight_income_deviation ([], 0)))))) 1"
    and l: "level a = get_risk_level (score a)"
    and f1: "0 \<le> risk f1 \<and> risk f1 \<le> 0.8"
    and f4: "0 \<le> risk f4 \<and> risk f4 \<le> 0.5"
    by (auto simp: analyze_try_def Let_def bind_err_Inr_iff
        dest!: check_industry_deviation_risk check_round_numbers_risk)
  let ?a1 = "add_finding f1 risk_weight_income_deviation ([], 0)"
  let ?a2 = "add_finding (check_deduction_ratio F r s) risk_weight_deduction_ratio ?a1"
  let ?a3 = "add_finding f4 risk_weight_round_numbers ?a2"
  let ?a4 = "add_finding (check_filing_timing tp) risk_weight_unusual_timing ?a3"
  have "snd ?a1 \<le> 0 + 0.8 * risk_weight_income_deviation"
    using f1 add_finding_score [of f1 "0.8" risk_weight_income_deviation "([], 0)"]
    by (simp add: risk_weight_income_deviation_def)
  moreover have "snd ?a2 \<le> snd ?a1 + 0.9 * risk_weight_deduction_ratio"
    using check_deduction_ratio_risk [of F r s]
    by (intro add_finding_score) (simp_all add: risk_weight_deduction_ratio_def)
  moreover have "snd ?a3 \<le> snd ?a2 + 0.5 * risk_weight_round_numbers"
    using f4 by (intro add_finding_score) (simp_all add: risk_weight_round_numbers_def)
  moreover have "snd ?a4 \<le> snd ?a3 + 0.3 * risk_weight_unusual_timing"
    using check_filing_timing_risk [of tp]
    by (intro add_finding_score) (simp_all add: risk_weight_unusual_timing_def)
  ultimately have "snd ?a4 \<le> 0.57"
    by (simp add: risk_weight_income_deviation_def risk_weight_deduction_ratio_def
        risk_weight_round_numbers_def risk_weight_unusual_timing_def)
  with a have "score a \<le> 0.57" by simp
  with l show ?thesis by (simp add: get_risk_level_def)
qed

lemma high_risk_scenario_result:
  "analyze_try F high_risk_scenario [] =
     Inr \<lparr>score = 0.42,
          level = ''MEDIUM'',
          factors = [''Income below average for retail sector'',
                     ''Deductions represent '' @ fmt_percent F 0.8 @ '' of income (typical: ''
                       @ fmt_percent F 0.35 @ '')'',
                     ''Multiple round numbers suggest estimated figures''],
          recommendation = generate_recommendations ''MEDIUM''
                    [''Income below average for retail sector'',
                     ''Deductions represent '' @ fmt_percent F 0.8 @ '' of income (typical: ''
                       @ fmt_percent F 0.35 @ '')'',
                     ''Multiple round numbers suggest estimated figures''],
          confidence = 0.85,
          detailed_analysis = Analysis
            \<lparr>deduction_ratio_value = 0.8,
             taxable_income = 2000,
             industry_comparison =
               \<lparr>risk = 0.4, reason = ''Income below average for retail sector''\<rparr>,
             factors_breakdown =
               [(''income_deviation'', 0.4), (''deduction_ratio'', 0.9),
                (''historical_inconsistency'', 0), (''round_numbers'', 0.5),
                (''unusual_timing'', 0)]\<rparr>\<rparr>"
  by (simp add: high_risk_scenario_def eval_analyze eval_rules deduction_retail_0_8)

lemma five_factor_result:
  "(case analyze_try plain_formatters five_factor_filing five_factor_history of
      Inr a \<Rightarrow> length (factors a) = 5 \<and> score a = 0.665 \<and> level a = ''MEDIUM''
    | Inl e \<Rightarrow> False)"
  by (simp add: five_factor_filing_def five_factor_history_def plain_formatters_def
      eval_analyze eval_rules deduction_retail_five)


lemma margin_filing_result:
  "analyze_try F margin_filing [] =
     Inr \<lparr>score = 0.225,
          level = ''LOW'',
          factors = [''Income below average for retail sector'',
                     ''Above average deduction ratio for retail sector'',
                     ''Some figures appear rounded''],
          recommendation = generate_recommendations ''LOW''
                    [''Income below average for retail sector'',
                     ''Above average deduction ratio for retail sector'',
                     ''Some figures appear rounded''],
          confidence = 0.85,
          detailed_analysis = Analysis
            \<lparr>deduction_ratio_value = 0.45,
             taxable_income = 5500,
             industry_comparison =
               \<lparr>risk = 0.4, reason = ''Income below average for retail sector''\<rparr>,
             factors_breakdown =
               [(''income_deviation'', 0.4), (''deduction_ratio'', 0.3),
                (''historical_inconsistency'', 0), (''round_numbers'', 0.2),
                (''unusual_timing'', 0)]\<rparr>\<rparr>"
  by (simp add: margin_filing_def eval_analyze eval_rules deduction_retail_0_45)

lemma year_period_result:
  "analyze_try F year_period_filing [] =
     Inr \<lparr>score = 0.075,
          level = ''LOW'',
          factors = [''Multiple round numbers suggest estimated figures''],
          recommendation = generate_recommendations ''LOW''
                    [''Multiple round numbers suggest estimated figures''],
          confidence = 0.95,
          detailed_analysis = Analysis
            \<lparr>deduction_ratio_value = 0.3,
             taxable_income = 35000,
             industry_comparison = \<lparr>risk = 0, reason = []\<rparr>,
             factors_breakdown =
               [(''income_deviation'', 0), (''deduction_ratio'', 0),
                (''historical_inconsistency'', 0), (''round_numbers'', 0.5),
                (''unusual_timing'', 0)]\<rparr>\<rparr>"
  by (simp add: year_period_filing_def eval_analyze eval_rules deduction_services_0_3)

lemma early_filing_features:
  "extract_features self early_filing [] =
     Inr [Fin (ln 50001), Fin (ln 15001), Fin 0.3, Fin (- (1 / 6)), Fin 0, Fin 3, Fin 0.1]"
  by (simp add: early_filing_def eval_learned eval_rules)

subsection \<open>The steps of \<open>analyze\<close> that raise\<close>

lemma positive_incomes_raises:
  "\<exists>g \<in> set h. \<not> is_number (dict_get g ''income'' (PNum 0)) \<Longrightarrow>
   positive_incomes h = Inl TypeError"
  by (induction h) (auto simp: is_number_def bind_err_def split: pyval.splits sum.splits)

lemma check_industry_deviation_number:
  "\<exists>fd. check_industry_deviation F (PNum x) s h = Inr fd"
  by (simp add: check_industry_deviation_def py_lt_def bind_err_def)

lemma compute_deduction_ratio_numbers:
  "\<exists>r. compute_deduction_ratio (PNum d) (PNum x) = Inr r"
  by (simp add: compute_deduction_ratio_def py_gt_def py_truediv_def bind_err_def)

lemma compute_deduction_ratio_non_number:
  "\<not> is_number i \<Longrightarrow> compute_deduction_ratio d i = Inl TypeError"
  by (cases i) (simp_all add: compute_deduction_ratio_def py_gt_def bind_err_def is_number_def)

lemma deductions_non_number:
  "\<not> is_number d \<Longrightarrow>
   bind_err (compute_deduction_ratio d (PNum x)) (\<lambda>ratio. bind_err (py_sub (PNum x) d) (k ratio))
     = Inl TypeError"
  by (cases d)
    (simp_all add: compute_deduction_ratio_def py_gt_def py_truediv_def py_sub_def bind_err_def
      is_number_def)

lemma non_string_sector_raises:
  "\<not> is_string (dict_get f ''business_sector'' (PStr ''services'')) \<Longrightarrow>
   analyze_try F f h = Inl AttributeError"
  by (cases "dict_get f ''business_sector'' (PStr ''services'')")
    (simp_all add: analyze_try_def Let_def py_lower_def bind_err_Inl is_string_def
      cong: bind_err_weak_cong)

lemma non_number_raises:
  assumes "is_string (dict_get f ''business_sector'' (PStr ''services''))"
    and "\<not> is_number (dict_get f ''income'' (PNum 0))
         \<or> \<not> is_number (dict_get f ''deductions'' (PNum 0))"
  shows "analyze_try F f h = Inl TypeError"
proof -
  from assms(1) obtain s where s: "dict_get f ''business_sector'' (PStr ''services'') = PStr s"
    by (auto simp: is_string_def split: pyval.splits)
  show ?thesis
  proof (cases "is_number (dict_get f ''income'' (PNum 0))")
    case False
    then show ?thesis
      by (simp add: analyze_try_def Let_def s py_lower_def compute_deduction_ratio_non_number
          bind_err_Inr bind_err_Inl cong: bind_err_weak_cong)
  next
    case True
    then obtain x where x: "dict_get f ''income'' (PNum 0) = PNum x"
      by (auto simp: is_number_def split: pyval.splits)
    from True assms(2) have d: "\<not> is_number (dict_get f ''deductions'' (PNum 0))"
      by simp
    show ?thesis
      unfolding analyze_try_def Let_def s x py_lower_def
      by (simp add: deductions_non_number [OF d] bind_err_Inr cong: bind_err_weak_cong)
  qed
qed

lemma non_number_history_raises:
  assumes "is_string (dict_get f ''business_sector'' (PStr ''services''))"
    and "\<exists>g \<in> set h. \<not> is_number (dict_get g ''income'' (PNum 0))"
  shows "analyze_try F f h = Inl TypeError"
proof (cases "is_number (dict_get f ''income'' (PNum 0))
              \<and> is_number (dict_get f ''deductions'' (PNum 0))")
  case False
  with assms(1) show ?thesis by (intro non_number_raises) auto
next
  case True
  then obtain x d where x: "dict_get f ''income'' (PNum 0) = PNum x"
    and d: "dict_get f ''deductions'' (PNum 0) = PNum d"
    by (auto simp: is_number_def split: pyval.splits)
  from assms(1) obtain s where s: "dict_get f ''business_sector'' (PStr ''services'') = PStr s"
    by (auto simp: is_string_def split: pyval.splits)
  from assms(2) have h: "h \<noteq> []" by auto
  obtain r where r: "compute_deduction_ratio (PNum d) (PNum x) = Inr r"
    using compute_deduction_ratio_numbers by blast
  obtain fd where fd: "check_industry_deviation F (PNum x) (lower s) h = Inr fd"
    using check_industry_deviation_number by blast
  have c: "check_historical_consistency F f h = Inl TypeError"
    using h by (simp add: check_historical_consistency_def Let_def
        positive_incomes_raises [OF assms(2)] bind_err_Inl)
  show ?thesis
    by (simp add: analyze_try_def Let_def s x d r fd c h py_lower_def py_sub_def
        bind_err_Inr bind_err_Inl cong: bind_err_weak_cong)
qed

lemma filing_timing_try_raises:
  "(\<exists>e'. filing_timing_try tp = Inl e') \<longleftrightarrow> (\<exists>n. tp = PNum n \<and> n \<noteq> 0)"
  by (cases tp) (auto simp: filing_timing_try_def truthy_def py_lower_def bind_err_def)

lemma check_filing_timing_number: "check_filing_timing (PNum n) = check_filing_timing (PStr [])"
  by (simp add: check_filing_timing_def filing_timing_try_def truthy_def py_lower_def
      bind_err_def)

lemma dict_get_other: "k \<noteq> k' \<Longrightarrow> dict_get ((k', v) # f) k d = dict_get f k d"
  by (simp add: dict_get_def)

lemma dict_get_first: "dict_get ((k, v) # f) k d = v"
  by (simp add: dict_get_def)

lemma check_historical_consistency_period:
  "check_historical_consistency F ((''tax_period'', v) # f) h = check_historical_consistency F f h"
  by (simp add: check_historical_consistency_def dict_get_other)

lemma analyze_try_number_period:
  "analyze_try F ((''tax_period'', PNum n) # f) h = analyze_try F ((''tax_period'', PStr []) # f) h"
proof -
  have k: "''income'' \<noteq> ''tax_period''" "''deductions'' \<noteq> ''tax_period''"
    "''business_sector'' \<noteq> ''tax_period''"
    by simp_all
  show ?thesis
    unfolding analyze_try_def
    by (simp only: dict_get_other [OF k(1)] dict_get_other [OF k(2)] dict_get_other [OF k(3)]
        dict_get_first check_historical_consistency_period check_filing_timing_number Let_def)
qed

subsection \<open>The tiers and the degraded ensemble on doubles\<close>

text \<open>
  The deduction check reports one tier, the first that matches in descending severity;
  the thresholds and the margin are the doubles the code compares with.
\<close>

lemma check_deduction_ratio_first_match:
  "(risk (check_deduction_ratio F r sector) = 0.9 \<longleftrightarrow> double_round r > double_round 0.7)
 \<and> (risk (check_deduction_ratio F r sector) = 0.6 \<longleftrightarrow>
        double_round 0.5 < double_round r \<and> double_round r \<le> double_round 0.7)
 \<and> (risk (check_deduction_ratio F r sector) = 0.3 \<longleftrightarrow>
        fl_add (double_round (deduction_ratio (dict_get industry_averages sector services_data)))
               (double_round 0.1) < double_round r
        \<and> double_round r \<le> double_round 0.5)
 \<and> (risk (check_deduction_ratio F r sector) = 0 \<longleftrightarrow>
        double_round r \<le> double_round 0.5
        \<and> double_round r \<le>
            fl_add (double_round (deduction_ratio (dict_get industry_averages sector services_data)))
                   (double_round 0.1))
 \<and> risk (check_deduction_ratio F r sector) \<in> {0.9, 0.6, 0.3, 0}"
proof -
  have "double_round (1 / 2) < double_round (7 / 10)"
    by (simp add: double_round_0_5 double_round_0_7)
  then show ?thesis
    by (auto simp: check_deduction_ratio_def Let_def no_finding_def)
qed

text \<open>
  When \<open>predict\<close> degrades, the method on doubles returns the six ordinary keys as the
  method over the reals does, without the key \<open>error\<close>.
\<close>

lemma ensemble_predict_double_degraded:
  assumes "map_of (predict self f h) ''error'' = Some m"
  shows "ensemble_predict_double self f h r =
           Inr [(''ensemble_score'', VNum (double_round (fl_mul (double_round r) (double_round 0.3)))),
                (''ml_score'', VNum 0),
                (''rule_based_score'', VNum r),
                (''final_prediction'',
                   VBool (double_round (fl_mul (double_round r) (double_round 0.3))
                            > double_round 0.6)),
                (''ml_confidence'', VNum 0),
                (''feature_importance'', VDict [])]"
proof -
  from assms obtain e where e: "predict_try self f h = Inl e"
    by (auto simp: predict_error_key split: sum.splits)
  then show ?thesis
    by (simp add: ensemble_predict_double_def ensemble_predict_with_def double_arithmetic_def
        predict_def py_getitem_def val_times_def bind_err_def Let_def fl_mul_def fl_add_def
        double_round_zero)
qed

subsection \<open>Claims\<close>




text \<open>
  C1. For a probability \<open>p\<close> reported by the estimator and a rule score \<open>r\<close>, both in
  [0,1], \<open>ensemble_predict\<close> on doubles returns normally. Its \<open>ensemble_score\<close> \<open>s\<close> is the
  float sum of the two float products, and it is within \<open>10\<^sup>-\<^sup>9\<close> of
  \<open>0.7 \<times> p + 0.3 \<times> r\<close>. The final flag is true if and only if \<open>s\<close> is strictly above
  0.6: the code compares \<open>s\<close> with the double of 0.6, and no double lies between that double
  and 0.6.
\<close>

theorem ensemble_predict_weighted:
  assumes "map_of (predict self f h) ''fraud_probability'' = Some (VNum p)"
    and "0 \<le> p" and "p \<le> 1" and "0 \<le> r" and "r \<le> 1"
  shows "\<exists>s out. ensemble_predict_double self f h r = Inr out
           \<and> map_of out ''ensemble_score'' = Some (VNum s)
           \<and> s = fl_add (fl_mul (double_round p) (double_round 0.7))
                        (fl_mul (double_round r) (double_round 0.3))
           \<and> \<bar>s - (0.7 * p + 0.3 * r)\<bar> \<le> 1 / 10 ^ 9
           \<and> map_of out ''ml_score'' = Some (VNum p)
           \<and> map_of out ''rule_based_score'' = Some (VNum r)
           \<and> map_of out ''final_prediction'' = Some (VBool (s > 0.6))
           \<and> (s > 0.6 \<longleftrightarrow> s > double_round 0.6)"
proof -
  obtain c where c: "map_of (predict self f h) ''model_confidence'' = Some (VNum c)"
    using predict_model_confidence by blast
  obtain fi where fi: "map_of (predict self f h) ''feature_importance'' = Some (VDict fi)"
    using predict_feature_importance by blast
  define s where "s = fl_add (fl_mul (double_round p) (double_round 0.7))
                        (fl_mul (double_round r) (double_round 0.3))"
  have flag: "s > double_round 0.6 \<longleftrightarrow> s > 0.6"
    unfolding s_def fl_add_def using double_round_above_six_tenths by simp
  have out: "ensemble_predict_double self f h r =
               Inr [(''ensemble_score'', VNum s),
                    (''ml_score'', VNum p),
                    (''rule_based_score'', VNum r),
                    (''final_prediction'', VBool (s > 0.6)),
                    (''ml_confidence'', VNum c),
                    (''feature_importance'', VDict fi)]"
    using assms(1) c fi flag
    by (simp add: ensemble_predict_double_def ensemble_predict_with_def double_arithmetic_def
        py_getitem_def val_times_def bind_err_def Let_def s_def)
  have tol: "\<bar>s - (0.7 * p + 0.3 * r)\<bar> \<le> 1 / 10 ^ 9"
    unfolding s_def using assms(2-5) by (rule weighted_sum_error)
  from out tol flag s_def show ?thesis
    by (intro exI [of _ s] exI [of _ "[(''ensemble_score'', VNum s),
                    (''ml_score'', VNum p),
                    (''rule_based_score'', VNum r),
                    (''final_prediction'', VBool (s > 0.6)),
                    (''ml_confidence'', VNum c),
                    (''feature_importance'', VDict fi)]"]) simp
qed

text \<open>
  At the boundary. A probability 0.6 and a rule score 0.6 give, on doubles, the double of
  0.6 as the score, and the flag is false. A probability 0.462 and a rule score 0.922,
  whose weighted sum over the reals is 0.6 exactly, give the next double
  \<open>0.6000000000000001\<close>, and the flag is true.
\<close>

theorem ensemble_predict_weighted_witness:
  "map_of (predict (constant_detector 0.6) high_risk_scenario []) ''fraud_probability''
     = Some (VNum 0.6)
   \<and> (\<exists>out. ensemble_predict_double (constant_detector 0.6) high_risk_scenario [] 0.6 = Inr out
          \<and> map_of out ''ensemble_score'' = Some (VNum (5404319552844595 / 2 ^ 53))
          \<and> map_of out ''final_prediction'' = Some (VBool False))
   \<and> map_of (predict (constant_detector 0.462) high_risk_scenario []) ''fraud_probability''
       = Some (VNum 0.462)
   \<and> (\<exists>out. ensemble_predict_double (constant_detector 0.462) high_risk_scenario [] 0.922
                = Inr out
          \<and> map_of out ''ensemble_score'' = Some (VNum (5404319552844596 / 2 ^ 53))
          \<and> map_of out ''final_prediction'' = Some (VBool True))
   \<and> (0.7 * 0.462 + 0.3 * 0.922 :: real) = 0.6"
proof -
  have p: "map_of (predict (constant_detector 0.6) high_risk_scenario []) ''fraud_probability''
             = Some (VNum 0.6)"
    by (simp add: high_risk_scenario_def constant_detector_def eval_rules eval_learned)
  have q: "map_of (predict (constant_detector 0.462) high_risk_scenario [])
             ''fraud_probability'' = Some (VNum 0.462)"
    by (simp add: high_risk_scenario_def constant_detector_def eval_rules eval_learned)
  from ensemble_predict_weighted [OF p, of "0.6"]
  have a: "\<exists>out. ensemble_predict_double (constant_detector 0.6) high_risk_scenario [] 0.6
                  = Inr out
          \<and> map_of out ''ensemble_score'' = Some (VNum (5404319552844595 / 2 ^ 53))
          \<and> map_of out ''final_prediction'' = Some (VBool False)"
    by (auto simp: weighted_sum_at)
  from ensemble_predict_weighted [OF q, of "0.922"]
  have b: "\<exists>out. ensemble_predict_double (constant_detector 0.462) high_risk_scenario [] 0.922
                  = Inr out
          \<and> map_of out ''ensemble_score'' = Some (VNum (5404319552844596 / 2 ^ 53))
          \<and> map_of out ''final_prediction'' = Some (VBool True)"
    by (auto simp: weighted_sum_above)
  from p q a b show ?thesis by simp
qed

text \<open>
  C2, as stated: whenever \<open>predict\<close> degrades, \<open>ensemble_predict\<close> propagates the degraded
  status. It does not: for a filing whose income is null, \<open>predict\<close> returns its degraded
  result with the key \<open>error\<close>, and \<open>ensemble_predict\<close> returns the six ordinary keys and
  no other, although the classifier would have answered 0.9.
\<close>

theorem ensemble_predict_drops_error_counterexample:
  "map_of (predict (constant_detector 0.9) null_income_filing []) ''error'' = Some (VErr TypeError)
   \<and> ensemble_predict (constant_detector 0.9) null_income_filing [] 0.5 =
       Inr [(''ensemble_score'', VNum 0.15),
            (''ml_score'', VNum 0),
            (''rule_based_score'', VNum 0.5),
            (''final_prediction'', VBool False),
            (''ml_confidence'', VNum 0),
            (''feature_importance'', VDict [])]"
  by (simp add: null_income_filing_def constant_detector_def eval_rules eval_learned)

text \<open>
  C2, amended: whenever \<open>predict\<close> degrades, \<open>ensemble_predict\<close> returns a result with the
  six ordinary keys and no error marker: \<open>ml_score\<close> 0, \<open>ml_confidence\<close> 0, an empty
  \<open>feature_importance\<close>, \<open>ensemble_score = 0.3 \<times> rule score\<close> and the flag of that score.
\<close>

theorem ensemble_predict_degraded:
  assumes "map_of (predict self f h) ''error'' = Some m"
  shows "ensemble_predict self f h r =
           Inr [(''ensemble_score'', VNum (0.3 * r)),
                (''ml_score'', VNum 0),
                (''rule_based_score'', VNum r),
                (''final_prediction'', VBool (0.3 * r > 0.6)),
                (''ml_confidence'', VNum 0),
                (''feature_importance'', VDict [])]"
proof -
  from assms obtain e where e: "predict_try self f h = Inl e"
    by (auto simp: predict_error_key split: sum.splits)
  then show ?thesis
    by (simp add: ensemble_predict_def ensemble_predict_with_def exact_arithmetic_def
        predict_def py_getitem_def val_times_def bind_err_def Let_def mult.commute)
qed

theorem ensemble_predict_degraded_witness:
  "map_of (predict failing_detector high_risk_scenario []) ''error'' = Some (VErr ValueError)
   \<and> ensemble_predict failing_detector high_risk_scenario [] 1 =
       Inr [(''ensemble_score'', VNum 0.3),
            (''ml_score'', VNum 0),
            (''rule_based_score'', VNum 1),
            (''final_prediction'', VBool False),
            (''ml_confidence'', VNum 0),
            (''feature_importance'', VDict [])]"
proof -
  have m: "map_of (predict failing_detector high_risk_scenario []) ''error''
             = Some (VErr ValueError)"
    by (simp add: high_risk_scenario_def failing_detector_def eval_rules eval_learned)
  show ?thesis
    using m ensemble_predict_degraded [OF m, of 1] by simp
qed

text \<open>
  C7. The deduction-ratio check is to report risk 0.3 exactly when the ratio is above the
  typical ratio of the sector plus 0.1 and at most 0.5. For the retail filing with
  income 10000 and deductions 4500 the ratio 0.45 is not above \<open>0.35 + 0.1\<close>, and the code
  reports risk 0.3: the float sum \<open>0.35 + 0.1\<close> is \<open>0.44999999999999996\<close>, below the double
  of 0.45. In the four other sectors the float sum is not below the double of the decimal
  sum, and a ratio at the typical ratio plus 0.1 draws no finding.
\<close>

theorem retail_margin_rounding:
  "risk (check_deduction_ratio F (4500 / 10000) ''retail'') = 0.3
 \<and> reason (check_deduction_ratio F (4500 / 10000) ''retail'')
     = ''Above average deduction ratio for retail sector''
 \<and> deduction_ratio (dict_get industry_averages ''retail'' services_data) = 0.35
 \<and> \<not> ((0.35 :: real) + 0.1 < 4500 / 10000)
 \<and> fl_add (double_round 0.35) (double_round 0.1) = 2026619832316723 / 2 ^ 52
 \<and> double_round (4500 / 10000) = 8106479329266893 / 2 ^ 54
 \<and> fl_add (double_round 0.35) (double_round 0.1) < double_round (4500 / 10000)
 \<and> (\<exists>b. detailed_analysis (analyze F margin_filing []) = Analysis b
      \<and> deduction_ratio_value b = 0.45
      \<and> map_of (factors_breakdown b) ''deduction_ratio'' = Some 0.3)
 \<and> factors (analyze F margin_filing []) =
     [''Income below average for retail sector'',
      ''Above average deduction ratio for retail sector'',
      ''Some figures appear rounded'']
 \<and> risk (check_deduction_ratio F 0.42 ''agriculture'') = 0
 \<and> risk (check_deduction_ratio F 0.38 ''manufacturing'') = 0
 \<and> risk (check_deduction_ratio F 0.48 ''construction'') = 0"
proof -
  have sector: "deduction_ratio (dict_get industry_averages ''retail'' services_data) = 0.35"
    by (simp add: dict_get_def industry_averages_def)
  have margin: "fl_add (double_round 0.35) (double_round 0.1) = 2026619832316723 / 2 ^ 52"
    using retail_margin by simp
  have ratio: "double_round (4500 / 10000) = 8106479329266893 / 2 ^ 54"
    using double_round_0_45 by simp
  have below: "fl_add (double_round 0.35) (double_round 0.1) < double_round (4500 / 10000)"
    unfolding margin ratio by simp
  from sector margin ratio below show ?thesis
    by (simp add: analyze_def margin_filing_result deduction_retail_0_45
        deduction_agriculture_0_42 deduction_manufacturing_0_38 deduction_construction_0_48)
qed

text \<open>
  C8, as stated: whenever a step of the computation raises, \<open>analyze\<close> returns the degraded
  result. Not for every step: for a filing whose \<open>tax_period\<close> is the number 2024 the call
  \<open>tax_period.lower()\<close> of the timing check raises \<open>AttributeError\<close>, the bare \<open>except\<close> of
  that check swallows it, and \<open>analyze\<close> returns an ordinary assessment with confidence
  0.95 and the recommendation of standard processing, without a manual-review note.
\<close>

theorem swallowed_timing_error_counterexample:
  "filing_timing_try (dict_get year_period_filing ''tax_period'' (PStr [])) = Inl AttributeError
 \<and> score (analyze plain_formatters year_period_filing []) = 0.075
 \<and> level (analyze plain_formatters year_period_filing []) = ''LOW''
 \<and> confidence (analyze plain_formatters year_period_filing []) = 0.95
 \<and> recommendation (analyze plain_formatters year_period_filing [])
     = ''Standard processing - no additional review required''
 \<and> \<not> contains ''Manual review'' (recommendation (analyze plain_formatters year_period_filing []))
 \<and> factors (analyze plain_formatters year_period_filing [])
     = [''Multiple round numbers suggest estimated figures'']"
proof -
  have t: "filing_timing_try (dict_get year_period_filing ''tax_period'' (PStr []))
             = Inl AttributeError"
    by (simp add: year_period_filing_def filing_timing_try_def eval_rules)
  have r: "generate_recommendations ''LOW'' [''Multiple round numbers suggest estimated figures'']
             = ''Standard processing - no additional review required''"
    by (simp add: generate_recommendations_def base_recommendations_def eval_rules)
  from t r show ?thesis
    by (simp add: analyze_def year_period_result)
qed

text \<open>
  C8, amended: \<open>analyze\<close> returns an assessment on every input. An exception raised by a
  step of its body outside the timing check reaches the handler, and the assessment is the
  degraded one: score 0, level LOW, confidence 0, the one factor "Analysis error" and the
  recommendation "Manual review required due to analysis error". Such steps are \<open>lower()\<close>
  on a sector that is not a string (\<open>AttributeError\<close>) and the comparisons and arithmetic
  on an income, deductions or history income that is not a number (\<open>TypeError\<close>). An
  exception raised inside the timing check, which happens exactly for a \<open>tax_period\<close> that
  is a non-zero number, is swallowed there: the check reports no finding and the
  assessment is the one of the same filing with an empty period label.
\<close>

theorem analyze_degrades:
  "(analyze_try F f h = Inl e \<longrightarrow>
      score (analyze F f h) = 0
    \<and> level (analyze F f h) = ''LOW''
    \<and> confidence (analyze F f h) = 0
    \<and> recommendation (analyze F f h) = ''Manual review required due to analysis error''
    \<and> contains ''Manual review'' (recommendation (analyze F f h))
    \<and> factors (analyze F f h) = [''Analysis error'']
    \<and> detailed_analysis (analyze F f h) = Error e)
 \<and> (\<not> is_string (dict_get f ''business_sector'' (PStr ''services'')) \<longrightarrow>
      analyze F f h = analysis_error AttributeError)
 \<and> (is_string (dict_get f ''business_sector'' (PStr ''services''))
      \<and> (\<not> is_number (dict_get f ''income'' (PNum 0))
          \<or> \<not> is_number (dict_get f ''deductions'' (PNum 0))) \<longrightarrow>
      analyze F f h = analysis_error TypeError)
 \<and> (is_string (dict_get f ''business_sector'' (PStr ''services''))
      \<and> (\<exists>g \<in> set h. \<not> is_number (dict_get g ''income'' (PNum 0))) \<longrightarrow>
      analyze F f h = analysis_error TypeError)
 \<and> ((\<exists>e'. filing_timing_try tp = Inl e') \<longleftrightarrow> (\<exists>n. tp = PNum n \<and> n \<noteq> 0))
 \<and> ((\<exists>e'. filing_timing_try tp = Inl e') \<longrightarrow> check_filing_timing tp = no_finding)
 \<and> analyze F ((''tax_period'', PNum n) # f) h = analyze F ((''tax_period'', PStr []) # f) h"
proof -
  have degraded: "analyze_try F f h = Inl e \<longrightarrow>
      score (analyze F f h) = 0
    \<and> level (analyze F f h) = ''LOW''
    \<and> confidence (analyze F f h) = 0
    \<and> recommendation (analyze F f h) = ''Manual review required due to analysis error''
    \<and> contains ''Manual review'' (recommendation (analyze F f h))
    \<and> factors (analyze F f h) = [''Analysis error'']
    \<and> detailed_analysis (analyze F f h) = Error e"
    by (simp add: analyze_def analysis_error_def)
  have sector: "\<not> is_string (dict_get f ''business_sector'' (PStr ''services'')) \<longrightarrow>
      analyze F f h = analysis_error AttributeError"
    by (simp add: analyze_def non_string_sector_raises)
  have numbers: "is_string (dict_get f ''business_sector'' (PStr ''services''))
      \<and> (\<not> is_number (dict_get f ''income'' (PNum 0))
          \<or> \<not> is_number (dict_get f ''deductions'' (PNum 0))) \<longrightarrow>
      analyze F f h = analysis_error TypeError"
    by (auto simp: analyze_def non_number_raises)
  have history: "is_string (dict_get f ''business_sector'' (PStr ''services''))
      \<and> (\<exists>g \<in> set h. \<not> is_number (dict_get g ''income'' (PNum 0))) \<longrightarrow>
      analyze F f h = analysis_error TypeError"
    by (auto simp: analyze_def non_number_history_raises)
  have timing: "(\<exists>e'. filing_timing_try tp = Inl e') \<longleftrightarrow> (\<exists>n. tp = PNum n \<and> n \<noteq> 0)"
    by (rule filing_timing_try_raises)
  have swallowed: "(\<exists>e'. filing_timing_try tp = Inl e') \<longrightarrow> check_filing_timing tp = no_finding"
    by (auto simp: check_filing_timing_def)
  have same: "analyze F ((''tax_period'', PNum n) # f) h
                = analyze F ((''tax_period'', PStr []) # f) h"
    by (simp add: analyze_def analyze_try_number_period)
  from degraded sector numbers history timing swallowed same show ?thesis
    by blast
qed

theorem analyze_degrades_witness:
  "analyze_try plain_formatters null_income_filing [] = Inl TypeError
 \<and> score (analyze plain_formatters null_income_filing []) = 0
 \<and> level (analyze plain_formatters null_income_filing []) = ''LOW''
 \<and> confidence (analyze plain_formatters null_income_filing []) = 0
 \<and> contains ''Manual review'' (recommendation (analyze plain_formatters null_income_filing []))
 \<and> \<not> is_string (dict_get null_sector_filing ''business_sector'' (PStr ''services''))
 \<and> analyze plain_formatters null_sector_filing [] = analysis_error AttributeError
 \<and> is_string (dict_get null_income_filing ''business_sector'' (PStr ''services''))
 \<and> \<not> is_number (dict_get null_income_filing ''income'' (PNum 0))
 \<and> analyze plain_formatters null_income_filing [] = analysis_error TypeError
 \<and> analyze plain_formatters high_risk_scenario [[(''income'', PStr ''n/a'')]]
     = analysis_error TypeError
 \<and> filing_timing_try (PNum 2024) = Inl AttributeError
 \<and> check_filing_timing (PNum 2024) = no_finding"
proof -
  have r: "analyze_try plain_formatters null_income_filing [] = Inl TypeError"
    by (simp add: analyze_try_def null_income_filing_def compute_deduction_ratio_def eval_rules)
  have s: "\<not> is_string (dict_get null_sector_filing ''business_sector'' (PStr ''services''))"
    by (simp add: null_sector_filing_def dict_get_def is_string_def)
  have i: "is_string (dict_get null_income_filing ''business_sector'' (PStr ''services''))"
    "\<not> is_number (dict_get null_income_filing ''income'' (PNum 0))"
    by (simp_all add: null_income_filing_def dict_get_def is_string_def is_number_def)
  have g: "is_string (dict_get high_risk_scenario ''business_sector'' (PStr ''services''))"
    "\<exists>g \<in> set [[(''income'', PStr ''n/a'')]]. \<not> is_number (dict_get g ''income'' (PNum 0))"
    by (simp_all add: high_risk_scenario_def dict_get_def is_string_def is_number_def)
  have t: "filing_timing_try (PNum 2024) = Inl AttributeError"
    by (simp add: filing_timing_try_def eval_rules)
  then have t': "\<exists>e'. filing_timing_try (PNum 2024) = Inl e'"
    by blast
  note A = analyze_degrades
    [of plain_formatters null_income_filing "[]" TypeError "PNum 2024" 2024]
  note B = analyze_degrades
    [of plain_formatters null_sector_filing "[]" TypeError "PNum 2024" 2024]
  note C = analyze_degrades
    [of plain_formatters high_risk_scenario "[[(''income'', PStr ''n/a'')]]" TypeError
      "PNum 2024" 2024]
  from A r have a1: "score (analyze plain_formatters null_income_filing []) = 0
      \<and> level (analyze plain_formatters null_income_filing []) = ''LOW''
      \<and> confidence (analyze plain_formatters null_income_filing []) = 0
      \<and> contains ''Manual review''
           (recommendation (analyze plain_formatters null_income_filing []))"
    by blast
  from A i have a2: "analyze plain_formatters null_income_filing [] = analysis_error TypeError"
    by blast
  from B s have b: "analyze plain_formatters null_sector_filing [] = analysis_error AttributeError"
    by blast
  from C g have c: "analyze plain_formatters high_risk_scenario [[(''income'', PStr ''n/a'')]]
      = analysis_error TypeError"
    by blast
  from A t' have d: "check_filing_timing (PNum 2024) = no_finding"
    by blast
  from r s i t a1 a2 b c d show ?thesis
    by blast
qed

text \<open>
  C3. The filing with income 10000, deductions 8000, sector retail and no history is the
  "High Risk Filing" scenario of \<open>final_validation.py\<close>, which expects the level HIGH. On
  the code the income-deviation finding is at the low tier with risk 0.4, not at the
  very-low tier with risk 0.8: the very-low tier is \<open>income < 10000\<close> and 10000 is not below
  10000. The deduction-ratio finding has risk 0.9 (ratio 0.8) and the round-number finding
  risk 0.5, so the weighted aggregate is \<open>0.3 \<times> 0.4 + 0.25 \<times> 0.9 + 0.15 \<times> 0.5 = 0.42\<close>,
  not clamped, and the level is MEDIUM, not HIGH.
\<close>

theorem high_risk_scenario_analysis:
  "score (analyze F high_risk_scenario []) = 0.42
 \<and> score (analyze F high_risk_scenario []) =
     risk_weight_income_deviation * 0.4 + risk_weight_deduction_ratio * 0.9
       + risk_weight_round_numbers * 0.5
 \<and> level (analyze F high_risk_scenario []) = ''MEDIUM''
 \<and> length (factors (analyze F high_risk_scenario [])) = 3
 \<and> (\<exists>b. detailed_analysis (analyze F high_risk_scenario []) = Analysis b
      \<and> deduction_ratio_value b = 0.8
      \<and> industry_comparison b =
          \<lparr>risk = 0.4, reason = ''Income below average for retail sector''\<rparr>
      \<and> factors_breakdown b =
           [(''income_deviation'', 0.4), (''deduction_ratio'', 0.9),
            (''historical_inconsistency'', 0), (''round_numbers'', 0.5),
            (''unusual_timing'', 0)])
 \<and> level (analyze F high_risk_scenario []) \<noteq> ''HIGH''
 \<and> score (analyze F high_risk_scenario []) < 0.7
 \<and> py_lt (PNum 10000) 10000 = Inr False"
  by (simp add: analyze_def high_risk_scenario_result risk_weight_income_deviation_def
      risk_weight_deduction_ratio_def risk_weight_round_numbers_def py_lt_def)

text \<open>
  C5, as stated: the timing slot of the feature vector is elevated exactly when
  \<open>tax_period\<close> contains a marker. It is not: the filing labelled "early-2024", whose label
  contains the marker and draws the timing finding of the rule-based detector, and the
  same filing labelled "2024-Q1" have the same feature vector, with 0.1 in the timing slot.
\<close>

theorem timing_slot_counterexample:
  "contains ''early'' (lower ''early-2024'')
 \<and> risk (check_filing_timing (dict_get early_filing ''tax_period'' (PStr []))) = 0.3
 \<and> extract_features failing_detector early_filing [] =
     Inr [Fin (ln 50001), Fin (ln 15001), Fin 0.3, Fin (- (1 / 6)), Fin 0, Fin 3, Fin 0.1]
 \<and> extract_features failing_detector quarter_filing [] =
     Inr [Fin (ln 50001), Fin (ln 15001), Fin 0.3, Fin (- (1 / 6)), Fin 0, Fin 3, Fin 0.1]"
  by (simp add: early_filing_def quarter_filing_def check_filing_timing_def
      filing_timing_try_def eval_learned eval_rules)

text \<open>
  C5, amended: for every filing the timing slot of the extracted feature vector is the
  constant 0.1; \<open>extract_features\<close> does not read \<open>tax_period\<close>, so the slot is never
  elevated. The marker match (case-insensitive "early" or "delay") exists only in the
  rule-based detector, where it decides the timing finding.
\<close>

theorem timing_slot_constant:
  "(\<forall>v. extract_features self f h = Inr v \<longrightarrow> length v = 7 \<and> v ! 6 = Fin 0.1)
 \<and> extract_features self ((''tax_period'', tp) # f) h = extract_features self f h
 \<and> risk (check_filing_timing (PStr s)) =
     (if contains ''early'' (lower s) \<or> contains ''delay'' (lower s) then 0.3 else 0)
 \<and> risk (check_filing_timing PNone) = 0
 \<and> risk (check_filing_timing (PNum n)) = 0"
proof -
  have slot: "\<forall>v. extract_features self f h = Inr v \<longrightarrow> length v = 7 \<and> v ! 6 = Fin 0.1"
    by (auto dest!: extract_features_shape)
  have unread: "extract_features self ((''tax_period'', tp) # f) h = extract_features self f h"
    by (simp add: extract_features_def dict_get_def)
  have "contains ''early'' [] = False" "contains ''delay'' [] = False"
    by simp_all
  then have str: "risk (check_filing_timing (PStr s)) =
     (if contains ''early'' (lower s) \<or> contains ''delay'' (lower s) then 0.3 else 0)"
    by (cases "s = []")
      (simp_all add: check_filing_timing_def filing_timing_try_def truthy_def py_lower_def
        bind_err_def no_finding_def lower_def)
  have other: "risk (check_filing_timing PNone) = 0" "risk (check_filing_timing (PNum n)) = 0"
    by (simp_all add: check_filing_timing_def filing_timing_try_def truthy_def py_lower_def
        bind_err_def no_finding_def)
  from slot unread str other show ?thesis by simp
qed

theorem timing_slot_constant_witness:
  "extract_features (constant_detector 0.5) early_filing [] =
     Inr [Fin (ln 50001), Fin (ln 15001), Fin 0.3, Fin (- (1 / 6)), Fin 0, Fin 3, Fin 0.1]
 \<and> [Fin (ln 50001), Fin (ln 15001), Fin 0.3, Fin (- (1 / 6)), Fin 0, Fin 3, Fin 0.1] ! 6
     = Fin 0.1"
  using timing_slot_constant [of "constant_detector 0.5" early_filing "[]"]
    early_filing_features [of "constant_detector 0.5"]
  by simp




text \<open>
  C10. A call of \<open>analyze\<close> that does not take the error path appends at most five risk
  factors, so its confidence is \<open>1 - 0.05 \<times> count\<close>, between 0.75 and 1: the floor 0.7 is
  never the value. A confidence below 0.75 occurs only on the error path, where it is 0.
\<close>

theorem analyze_confidence_range:
  "(analyze_try F f h = Inr a \<longrightarrow>
      analyze F f h = a
    \<and> length (factors a) \<le> 5
    \<and> confidence a = 1 - 0.05 * real (length (factors a))
    \<and> 0.75 \<le> confidence a \<and> confidence a \<le> 1)
 \<and> (confidence (analyze F f h) < 0.75 \<longrightarrow>
      (\<exists>e. analyze_try F f h = Inl e) \<and> confidence (analyze F f h) = 0)"
proof -
  have ok: "analyze F f h = a \<and> length (factors a) \<le> 5
      \<and> confidence a = 1 - 0.05 * real (length (factors a))
      \<and> 0.75 \<le> confidence a \<and> confidence a \<le> 1"
    if r: "analyze_try F f h = Inr a" for a
  proof -
    from analyze_try_factors [OF r]
    have n: "length (factors a) \<le> 5"
      and c: "confidence a = max 0.7 (1 - real (length (factors a)) * 0.05)"
      by simp_all
    from n have "real (length (factors a)) \<le> 5" by simp
    with c have "confidence a = 1 - 0.05 * real (length (factors a))"
      "0.75 \<le> confidence a" "confidence a \<le> 1"
      by (simp_all add: max_def)
    with r n show ?thesis by (simp add: analyze_def)
  qed
  have low: "(\<exists>e. analyze_try F f h = Inl e) \<and> confidence (analyze F f h) = 0"
    if c: "confidence (analyze F f h) < 0.75"
  proof (cases "analyze_try F f h")
    case (Inl e)
    then show ?thesis by (simp add: analyze_def analysis_error_def)
  next
    case (Inr b)
    from ok [OF Inr] c show ?thesis by simp
  qed
  from ok low show ?thesis by blast
qed

theorem analyze_confidence_range_witness:
  "length (factors (analyze plain_formatters five_factor_filing five_factor_history)) = 5
 \<and> confidence (analyze plain_formatters five_factor_filing five_factor_history) = 0.75"
proof -
  obtain a where a: "analyze_try plain_formatters five_factor_filing five_factor_history = Inr a"
    and n: "length (factors a) = 5"
    using five_factor_result by (auto split: sum.splits)
  from analyze_confidence_range [of plain_formatters five_factor_filing five_factor_history a] a n
  show ?thesis by simp
qed

end
